theory Spec2Isabelle
  imports Complex_Main "HOL-Library.Multiset" "HOL-Library.Sublist"
begin

section \<open>Attribute-based access control: the two policy engines\<close>

text \<open>
  This theory embeds the decision core of the repository: the resource-level engine
  of \<^verbatim>\<open>src/policy-engine.js\<close> (class PolicyEngine: evaluateConditions, evaluate,
  checkAccess) and the field-level engine (evaluateCondition, evaluatePolicyConditions,
  getFieldPolicies, evaluateFieldAccess, applyMask, filterSingleRow).

  Conventions of the embedding.
  \<^item> A JavaScript string is a \<open>string\<close>; its characters are read as the code units
    U+0000 to U+00FF. A value that may be \<open>null\<close> or \<open>undefined\<close> is an \<open>option\<close>.
  \<^item> An attribute bag (a plain object filled from attribute rows) is the map a lookup
    \<open>bag[name]\<close> computes: the own properties of the object over the members it
    inherits from \<open>Object.prototype\<close>, each value as the text \<open>String\<close> gives for it,
    \<open>None\<close> where the lookup gives \<open>undefined\<close> or \<open>null\<close>. The table of fields that
    filterSingleRow receives is the map of its own properties, and the loop of
    filterSingleRow looks at the inherited members itself. A schema field named
    \<open>__proto__\<close> is outside the model.
  \<^item> A database table is the list of its rows. A \<open>SELECT ... ORDER BY\<close> returns the
    selected rows in some order that satisfies the ORDER BY clause; rows that tie on
    every ordering term may come in any order, so the rows a query returned are an
    argument of the function that runs the query, and a predicate says which lists the
    query admits. A \<open>SELECT\<close> without ORDER BY is taken to return its rows in table
    order.
  \<^item> An exception is a value: a function that can raise returns \<open>js_error + 'a\<close>.
  \<^item> The built-ins whose behaviour is not repository code (the RegExp constructor,
    Number, parseFloat, the clock read by \<open>new Date()\<close>) are the fields of a record
    passed to every function that uses one. A number stored in an attribute bag (the
    hour of the clock) is held as the string \<open>String\<close> gives for it.
\<close>

subsection \<open>Strings\<close>

definition lower_char :: "char \<Rightarrow> char" where
  "lower_char c =
     (let n = (of_char c :: nat)
      in if (65 \<le> n \<and> n \<le> 90) \<or> (192 \<le> n \<and> n \<le> 222 \<and> n \<noteq> 215)
         then char_of (n + 32) else c)"

definition toLowerCase :: "string \<Rightarrow> string" where
  "toLowerCase s = map lower_char s"

definition is_whitespace :: "char \<Rightarrow> bool" where
  "is_whitespace c = ((of_char c :: nat) \<in> {9, 10, 11, 12, 13, 32, 160})"

definition trim :: "string \<Rightarrow> string" where
  "trim s = rev (dropWhile is_whitespace (rev (dropWhile is_whitespace s)))"

text \<open>\<^verbatim>\<open>b.split(',')\<close>: the pieces between commas; the empty string gives one empty piece.\<close>

fun split_comma :: "string \<Rightarrow> string list" where
  "split_comma [] = [[]]"
| "split_comma (c # cs) =
     (if c = CHR '','' then [] # split_comma cs
      else (case split_comma cs of [] \<Rightarrow> [[c]] | w # ws \<Rightarrow> (c # w) # ws))"

text \<open>\<^verbatim>\<open>s.includes(t)\<close>: \<open>t\<close> occurs in \<open>s\<close> as a contiguous piece.\<close>

fun str_includes :: "string \<Rightarrow> string \<Rightarrow> bool" where
  "str_includes [] t = (t = [])"
| "str_includes (c # cs) t = (prefix t (c # cs) \<or> str_includes cs t)"

text \<open>\<^verbatim>\<open>s.slice(-4)\<close>: the last four characters, the whole string when it is shorter.\<close>

definition slice_last4 :: "string \<Rightarrow> string" where
  "slice_last4 s = drop (length s - 4) s"

text \<open>\<^verbatim>\<open>s.indexOf('@')\<close>, \<open>None\<close> standing for -1.\<close>

fun indexOf_at :: "string \<Rightarrow> nat option" where
  "indexOf_at [] = None"
| "indexOf_at (c # cs) =
     (if c = CHR ''@'' then Some 0 else map_option Suc (indexOf_at cs))"

subsection \<open>Built-ins taken as parameters\<close>

datatype js_number = NaN | NegInfinity | Finite real | Infinity

fun js_less :: "js_number \<Rightarrow> js_number \<Rightarrow> bool" where
  "js_less NaN _ = False"
| "js_less _ NaN = False"
| "js_less Infinity _ = False"
| "js_less _ NegInfinity = False"
| "js_less NegInfinity _ = True"
| "js_less _ Infinity = True"
| "js_less (Finite x) (Finite y) = (x < y)"

datatype js_error = SyntaxError

text \<open>
  \<open>RegExp_i p\<close> is \<^verbatim>\<open>new RegExp(p, 'i')\<close>: \<open>None\<close> when the constructor raises a
  SyntaxError (the pattern is invalid), otherwise the test of the compiled expression.
\<close>

record js_builtins =
  RegExp_i :: "string \<Rightarrow> (string \<Rightarrow> bool) option"
  Number :: "string \<Rightarrow> js_number"
  parseFloat :: "string \<Rightarrow> js_number"
  Date_toISOString :: string
  Date_getHours :: string
  Date_weekday :: string

subsection \<open>Conditions\<close>

datatype subject_type =
  Subj_user | Subj_resource | Subj_field | Subj_environment | Subj_action | Subj_other

datatype operator =
  Op_equals | Op_not_equals | Op_contains | Op_in | Op_greater_than | Op_less_than
  | Op_matches | Op_other

text \<open>
  A row of \<open>policy_conditions\<close> or \<open>field_policy_conditions\<close>. The field engine reads the
  last column under the name \<open>value\<close>. The CHECK constraints of the two tables admit the
  named subject types and operators only (\<open>field\<close> in the second table only);
  \<open>Subj_other\<close> and \<open>Op_other\<close> stand for any other text, which the code sends to its
  default branches.
\<close>

record condition =
  policy_id :: string
  subject_type :: subject_type
  attribute_name :: string
  operator :: operator
  attribute_value :: string

type_synonym attrs = "string \<rightharpoonup> string"

subsection \<open>Plain objects\<close>

text \<open>The names of the members of \<open>Object.prototype\<close>, which every plain object inherits.\<close>

definition Object_prototype_keys :: "string list" where
  "Object_prototype_keys =
     [''constructor'', ''__defineGetter__'', ''__defineSetter__'', ''hasOwnProperty'',
      ''__lookupGetter__'', ''__lookupSetter__'', ''isPrototypeOf'', ''propertyIsEnumerable'',
      ''toString'', ''valueOf'', ''__proto__'', ''toLocaleString'']"

text \<open>
  What a lookup in the empty object \<open>{}\<close> gives, as \<open>String\<close> prints it: the member
  \<open>__proto__\<close> is the prototype object itself, every other member is a native function.
\<close>

definition Object_prototype :: attrs where
  "Object_prototype =
     (\<lambda>name. if name \<in> set Object_prototype_keys then
                Some (if name = ''__proto__'' then ''[object Object]''
                      else if name = ''constructor'' then ''function Object() { [native code] }''
                      else ''function '' @ name @ ''() { [native code] }'')
              else None)"

text \<open>
  \<^verbatim>\<open>result[name] = value\<close> for a string \<open>value\<close>: the assignment to \<open>__proto__\<close> goes to
  the setter of the prototype, which ignores a value that is not an object.
\<close>

definition set_property :: "string \<Rightarrow> 'v \<Rightarrow> (string \<rightharpoonup> 'v) \<Rightarrow> (string \<rightharpoonup> 'v)" where
  "set_property name v m = (if name = ''__proto__'' then m else m(name \<mapsto> v))"

text \<open>\<^verbatim>\<open>conditions.every(f)\<close> for a callback that may raise: it stops at the first false.\<close>

fun every :: "('a \<Rightarrow> js_error + bool) \<Rightarrow> 'a list \<Rightarrow> js_error + bool" where
  "every f [] = Inr True"
| "every f (x # xs) =
     (case f x of
        Inl e \<Rightarrow> Inl e
      | Inr b \<Rightarrow> if b then every f xs else Inr False)"

subsection \<open>The resource-level engine: operators and evaluateConditions\<close>

text \<open>
  The table \<open>this.operators\<close> of the constructor, looked up by name: \<open>None\<close> is the
  missing entry. The entry for \<open>matches\<close> calls the RegExp constructor unguarded.
\<close>

fun operators :: "js_builtins \<Rightarrow> operator \<Rightarrow> (string \<Rightarrow> string \<Rightarrow> js_error + bool) option" where
  "operators js Op_equals = Some (\<lambda>a b. Inr (toLowerCase a = toLowerCase b))"
| "operators js Op_not_equals = Some (\<lambda>a b. Inr (toLowerCase a \<noteq> toLowerCase b))"
| "operators js Op_contains = Some (\<lambda>a b. Inr (str_includes (toLowerCase a) (toLowerCase b)))"
| "operators js Op_in =
     Some (\<lambda>a b. Inr (toLowerCase a \<in> set (map (\<lambda>s. toLowerCase (trim s)) (split_comma b))))"
| "operators js Op_greater_than = Some (\<lambda>a b. Inr (js_less (Number js b) (Number js a)))"
| "operators js Op_less_than = Some (\<lambda>a b. Inr (js_less (Number js a) (Number js b)))"
| "operators js Op_matches =
     Some (\<lambda>a b. case RegExp_i js b of None \<Rightarrow> Inl SyntaxError | Some test \<Rightarrow> Inr (test a))"
| "operators js Op_other = None"

text \<open>The callback of \<open>every\<close> in evaluateConditions.\<close>

definition condition_matches ::
  "js_builtins \<Rightarrow> attrs \<Rightarrow> attrs \<Rightarrow> attrs \<Rightarrow> string \<Rightarrow> condition \<Rightarrow> js_error + bool" where
  "condition_matches js userAttrs resourceAttrs envAttrs action c =
     (case (case subject_type c of
              Subj_user \<Rightarrow> Some (userAttrs (attribute_name c))
            | Subj_resource \<Rightarrow> Some (resourceAttrs (attribute_name c))
            | Subj_environment \<Rightarrow> Some (envAttrs (attribute_name c))
            | Subj_action \<Rightarrow> Some (Some action)
            | _ \<Rightarrow> None) of
        None \<Rightarrow> Inr False
      | Some None \<Rightarrow> Inr False
      | Some (Some actualValue) \<Rightarrow>
          (case operators js (operator c) of
             None \<Rightarrow> Inr False
           | Some operator_fn \<Rightarrow> operator_fn actualValue (attribute_value c)))"

definition evaluateConditions ::
  "js_builtins \<Rightarrow> condition list \<Rightarrow> attrs \<Rightarrow> attrs \<Rightarrow> attrs \<Rightarrow> string \<Rightarrow> js_error + bool" where
  "evaluateConditions js conditions userAttrs resourceAttrs envAttrs action =
     (if length conditions = 0 then Inr False
      else every (condition_matches js userAttrs resourceAttrs envAttrs action) conditions)"

subsection \<open>The database\<close>

record user_row =
  user_id :: string
  username :: string
  email :: "string option"

record resource_row =
  resource_id :: string
  resource_name :: string
  resource_type :: string

text \<open>A row of \<open>user_attributes\<close>, \<open>resource_attributes\<close> or \<open>field_attributes\<close>.\<close>

record attribute_row =
  owner_id :: string
  attr_name :: string
  attr_value :: string

text \<open>The effect of a resource policy; the table admits \<open>allow\<close> and \<open>deny\<close>.\<close>

datatype policy_effect = Allow | Deny

text \<open>
  A row of \<open>policies\<close>. The column \<open>created_at\<close> holds a timestamp text that compares
  chronologically; it is kept as a number of seconds.
\<close>

record policy =
  policy_ident :: string
  policy_name :: string
  effect :: policy_effect
  priority :: int
  is_active :: int
  created_at :: nat

record audit_row =
  log_user_id :: string
  log_resource_id :: string
  log_action :: string
  log_decision :: string
  log_policy_id :: "string option"
  log_reason :: string

record field_row =
  field_id :: string
  field_resource_id :: string
  field_name :: string
  field_type :: "string option"

text \<open>The constants of \<open>EFFECTS\<close>, the four effects the table of field policies admits.\<close>

datatype field_effect = ALLOW | DENY | MASK | REDACT

record field_policy_row =
  fp_id :: string
  fp_name :: string
  fp_resource_type :: "string option"
  fp_field_pattern :: "string option"
  fp_effect :: field_effect
  fp_mask_value :: "string option"
  fp_priority :: int
  fp_is_active :: int
  fp_created_at :: nat

record db =
  users :: "user_row list"
  user_attributes :: "attribute_row list"
  resources :: "resource_row list"
  resource_attributes :: "attribute_row list"
  environment_attributes :: "(string \<times> string) list"
  policies :: "policy list"
  policy_conditions :: "condition list"
  access_audit_log :: "audit_row list"
  resource_fields :: "field_row list"
  field_attributes :: "attribute_row list"
  field_policies :: "field_policy_row list"
  field_policy_conditions :: "condition list"

text \<open>
  What a \<open>SELECT ... ORDER BY\<close> may return: the selected rows, each once, so arranged
  that every row may stand before every later one. \<open>before a b\<close> says that the ORDER BY
  clause lets \<open>a\<close> stand before \<open>b\<close>.
\<close>

definition sql_order_by :: "('r \<Rightarrow> 'r \<Rightarrow> bool) \<Rightarrow> 'r list \<Rightarrow> 'r list \<Rightarrow> bool" where
  "sql_order_by before selected fetched \<longleftrightarrow>
     mset fetched = mset selected \<and> sorted_wrt before fetched"

text \<open>\<^verbatim>\<open>rows.forEach(attr => { result[attr.attribute_name] = attr.attribute_value })\<close>\<close>

definition assign_attributes :: "attribute_row list \<Rightarrow> attrs \<Rightarrow> attrs" where
  "assign_attributes rows result =
     fold (\<lambda>a m. set_property (attr_name a) (attr_value a) m) rows result"

subsection \<open>The resource-level engine: evaluate and checkAccess\<close>

definition getUserAttributes :: "db \<Rightarrow> string \<Rightarrow> attrs option" where
  "getUserAttributes db userId =
     (case find (\<lambda>u. user_id u = userId) (users db) of
        None \<Rightarrow> None
      | Some user \<Rightarrow>
          Some (assign_attributes (filter (\<lambda>a. owner_id a = userId) (user_attributes db))
                  (Object_prototype
                     (''id'' \<mapsto> user_id user, ''username'' \<mapsto> username user,
                      ''email'' := email user))))"

definition getResourceAttributes :: "db \<Rightarrow> string \<Rightarrow> attrs option" where
  "getResourceAttributes db resourceId =
     (case find (\<lambda>r. resource_id r = resourceId) (resources db) of
        None \<Rightarrow> None
      | Some resource \<Rightarrow>
          Some (assign_attributes
                  (filter (\<lambda>a. owner_id a = resourceId) (resource_attributes db))
                  (Object_prototype
                     (''id'' \<mapsto> resource_id resource, ''name'' \<mapsto> resource_name resource,
                      ''type'' \<mapsto> resource_type resource))))"

definition getEnvironmentAttributes :: "js_builtins \<Rightarrow> db \<Rightarrow> attrs" where
  "getEnvironmentAttributes js db =
     fold (\<lambda>(n, v) m. set_property n v m) (environment_attributes db)
       (Object_prototype
          (''current_time'' \<mapsto> Date_toISOString js, ''current_hour'' \<mapsto> Date_getHours js,
           ''current_day'' \<mapsto> toLowerCase (Date_weekday js)))"

text \<open>What evaluate and the audit log hold of a decision.\<close>

record decision =
  allowed :: bool
  reason :: string
  policyId :: "string option"

definition logAndReturn ::
  "db \<Rightarrow> string \<Rightarrow> string \<Rightarrow> string \<Rightarrow> bool \<Rightarrow> string option \<Rightarrow> string \<Rightarrow> db \<times> decision" where
  "logAndReturn db userId resourceId action allowed' policyId' reason' =
     (db\<lparr>access_audit_log := access_audit_log db @
          [\<lparr>log_user_id = userId, log_resource_id = resourceId, log_action = action,
            log_decision = (if allowed' then ''allow'' else ''deny''),
            log_policy_id = policyId', log_reason = reason'\<rparr>]\<rparr>,
      \<lparr>allowed = allowed', reason = reason', policyId = policyId'\<rparr>)"

text \<open>
  How the \<open>for\<close> loop over the policies ends: by the \<open>return\<close> in its body at a matching
  deny policy, or at the end of the list with the variable \<open>allowingPolicy\<close>.
\<close>

datatype loop_exit = Returned_deny policy | Finished "policy option"

text \<open>The rows evaluate's query admits: \<open>ORDER BY priority DESC, created_at ASC\<close>.\<close>

definition evaluate_query :: "db \<Rightarrow> policy list \<Rightarrow> bool" where
  "evaluate_query db fetched \<longleftrightarrow>
     sql_order_by
       (\<lambda>a b. priority a > priority b \<or> (priority a = priority b \<and> created_at a \<le> created_at b))
       (filter (\<lambda>p. is_active p = 1) (policies db)) fetched"

fun evaluate_loop ::
  "js_builtins \<Rightarrow> db \<Rightarrow> attrs \<Rightarrow> attrs \<Rightarrow> attrs \<Rightarrow> string \<Rightarrow> policy list \<Rightarrow> policy option
     \<Rightarrow> js_error + loop_exit" where
  "evaluate_loop js db userAttrs resourceAttrs envAttrs action [] allowingPolicy =
     Inr (Finished allowingPolicy)"
| "evaluate_loop js db userAttrs resourceAttrs envAttrs action (policy # rest) allowingPolicy =
     (case evaluateConditions js
             (filter (\<lambda>c. policy_id c = policy_ident policy) (policy_conditions db))
             userAttrs resourceAttrs envAttrs action of
        Inl err \<Rightarrow> Inl err
      | Inr matches \<Rightarrow>
          if matches then
            if effect policy = Deny then Inr (Returned_deny policy)
            else if allowingPolicy = None
              then evaluate_loop js db userAttrs resourceAttrs envAttrs action rest (Some policy)
              else evaluate_loop js db userAttrs resourceAttrs envAttrs action rest allowingPolicy
          else evaluate_loop js db userAttrs resourceAttrs envAttrs action rest allowingPolicy)"

text \<open>
  \<open>fetched\<close> is what the policy query returned. When a condition raises, the exception
  leaves evaluate (its \<open>try\<close> has a \<open>finally\<close> and no \<open>catch\<close>) and nothing is logged.
\<close>

definition evaluate ::
  "js_builtins \<Rightarrow> db \<Rightarrow> policy list \<Rightarrow> string \<Rightarrow> string \<Rightarrow> string \<Rightarrow> db \<times> (js_error + decision)" where
  "evaluate js db fetched userId resourceId action =
     (case getUserAttributes db userId of
        None \<Rightarrow> apsnd Inr (logAndReturn db userId resourceId action False None ''User not found'')
      | Some userAttrs \<Rightarrow>
          (case getResourceAttributes db resourceId of
             None \<Rightarrow>
               apsnd Inr (logAndReturn db userId resourceId action False None ''Resource not found'')
           | Some resourceAttrs \<Rightarrow>
               (case evaluate_loop js db userAttrs resourceAttrs (getEnvironmentAttributes js db)
                       action fetched None of
                  Inl err \<Rightarrow> (db, Inl err)
                | Inr (Returned_deny policy) \<Rightarrow>
                    apsnd Inr (logAndReturn db userId resourceId action False
                      (Some (policy_ident policy)) (''Denied by policy: '' @ policy_name policy))
                | Inr (Finished (Some allowingPolicy)) \<Rightarrow>
                    apsnd Inr (logAndReturn db userId resourceId action True
                      (Some (policy_ident allowingPolicy))
                      (''Allowed by policy: '' @ policy_name allowingPolicy))
                | Inr (Finished None) \<Rightarrow>
                    apsnd Inr (logAndReturn db userId resourceId action False None
                      ''No applicable policy found - default deny''))))"

text \<open>The rows checkAccess's query admits: \<open>ORDER BY priority DESC\<close>.\<close>

definition checkAccess_query :: "db \<Rightarrow> policy list \<Rightarrow> bool" where
  "checkAccess_query db fetched \<longleftrightarrow>
     sql_order_by (\<lambda>a b. priority a \<ge> priority b)
       (filter (\<lambda>p. is_active p = 1) (policies db)) fetched"

text \<open>What checkAccess returns: the whole policy row under \<open>policy\<close>, when there is one.\<close>

record check_result =
  ck_allowed :: bool
  ck_reason :: string
  ck_policy :: "policy option"

fun checkAccess_loop ::
  "js_builtins \<Rightarrow> db \<Rightarrow> attrs \<Rightarrow> attrs \<Rightarrow> attrs \<Rightarrow> string \<Rightarrow> policy list \<Rightarrow> policy option
     \<Rightarrow> js_error + loop_exit" where
  "checkAccess_loop js db userAttrs resourceAttrs envAttrs action [] allowingPolicy =
     Inr (Finished allowingPolicy)"
| "checkAccess_loop js db userAttrs resourceAttrs envAttrs action (policy # rest) allowingPolicy =
     (case evaluateConditions js
             (filter (\<lambda>c. policy_id c = policy_ident policy) (policy_conditions db))
             userAttrs resourceAttrs envAttrs action of
        Inl err \<Rightarrow> Inl err
      | Inr True \<Rightarrow>
          if effect policy = Deny then Inr (Returned_deny policy)
          else if allowingPolicy = None
            then checkAccess_loop js db userAttrs resourceAttrs envAttrs action rest (Some policy)
            else checkAccess_loop js db userAttrs resourceAttrs envAttrs action rest allowingPolicy
      | Inr False \<Rightarrow>
          checkAccess_loop js db userAttrs resourceAttrs envAttrs action rest allowingPolicy)"

definition checkAccess ::
  "js_builtins \<Rightarrow> db \<Rightarrow> policy list \<Rightarrow> string \<Rightarrow> string \<Rightarrow> string \<Rightarrow> js_error + check_result" where
  "checkAccess js db fetched userId resourceId action =
     (case getUserAttributes db userId of
        None \<Rightarrow> Inr \<lparr>ck_allowed = False, ck_reason = ''User not found'', ck_policy = None\<rparr>
      | Some userAttrs \<Rightarrow>
          (case getResourceAttributes db resourceId of
             None \<Rightarrow>
               Inr \<lparr>ck_allowed = False, ck_reason = ''Resource not found'', ck_policy = None\<rparr>
           | Some resourceAttrs \<Rightarrow>
               (case checkAccess_loop js db userAttrs resourceAttrs
                       (getEnvironmentAttributes js db) action fetched None of
                  Inl err \<Rightarrow> Inl err
                | Inr (Returned_deny policy) \<Rightarrow>
                    Inr \<lparr>ck_allowed = False,
                         ck_reason = ''Denied by policy: '' @ policy_name policy,
                         ck_policy = Some policy\<rparr>
                | Inr (Finished (Some allowingPolicy)) \<Rightarrow>
                    Inr \<lparr>ck_allowed = True,
                         ck_reason = ''Allowed by policy: '' @ policy_name allowingPolicy,
                         ck_policy = Some allowingPolicy\<rparr>
                | Inr (Finished None) \<Rightarrow>
                    Inr \<lparr>ck_allowed = False,
                         ck_reason = ''No applicable policy - default deny'',
                         ck_policy = None\<rparr>)))"

subsection \<open>The field-level engine: conditions and policies\<close>

text \<open>The evaluation context: four attribute bags and the action.\<close>

record eval_context =
  ctx_user :: attrs
  ctx_resource :: attrs
  ctx_field :: attrs
  ctx_action :: string
  ctx_environment :: attrs

text \<open>
  evaluateCondition has its own \<open>switch\<close> over the operator; its case for \<open>matches\<close>
  wraps the RegExp constructor in \<open>try\<close> and returns false from the \<open>catch\<close>.
\<close>

definition evaluateCondition :: "js_builtins \<Rightarrow> condition \<Rightarrow> eval_context \<Rightarrow> bool" where
  "evaluateCondition js c context =
     (case (case subject_type c of
              Subj_user \<Rightarrow> Some (ctx_user context (attribute_name c))
            | Subj_resource \<Rightarrow> Some (ctx_resource context (attribute_name c))
            | Subj_field \<Rightarrow> Some (ctx_field context (attribute_name c))
            | Subj_environment \<Rightarrow> Some (ctx_environment context (attribute_name c))
            | Subj_action \<Rightarrow> Some (Some (ctx_action context))
            | Subj_other \<Rightarrow> None) of
        None \<Rightarrow> False
      | Some None \<Rightarrow> False
      | Some (Some actualValue) \<Rightarrow>
          (let expectedValue = attribute_value c
           in case operator c of
                Op_equals \<Rightarrow> toLowerCase actualValue = toLowerCase expectedValue
              | Op_not_equals \<Rightarrow> toLowerCase actualValue \<noteq> toLowerCase expectedValue
              | Op_contains \<Rightarrow> str_includes (toLowerCase actualValue) (toLowerCase expectedValue)
              | Op_in \<Rightarrow>
                  toLowerCase actualValue
                    \<in> set (map (\<lambda>v. toLowerCase (trim v)) (split_comma expectedValue))
              | Op_greater_than \<Rightarrow> js_less (Number js expectedValue) (Number js actualValue)
              | Op_less_than \<Rightarrow> js_less (Number js actualValue) (Number js expectedValue)
              | Op_matches \<Rightarrow>
                  (case RegExp_i js expectedValue of
                     None \<Rightarrow> False
                   | Some test \<Rightarrow> test actualValue)
              | Op_other \<Rightarrow> False))"

text \<open>
  A field policy as getFieldPolicies returns it: the row of \<open>field_policies\<close> with the
  parsed list of its conditions.
\<close>

record field_policy =
  fp_row :: field_policy_row
  fp_conditions :: "condition list"

text \<open>The rows getFieldPolicies selects, before ORDER BY; \<open>resourceType\<close> filters when truthy.\<close>

definition getFieldPolicies_selected :: "db \<Rightarrow> string option \<Rightarrow> field_policy_row list" where
  "getFieldPolicies_selected db resourceType =
     filter (\<lambda>fp. fp_is_active fp = 1 \<and>
                 (case resourceType of
                    None \<Rightarrow> True
                  | Some t \<Rightarrow>
                      t = [] \<or> fp_resource_type fp = None \<or> fp_resource_type fp = Some t))
       (field_policies db)"

text \<open>The rows the query of getFieldPolicies admits: \<open>ORDER BY fp.priority DESC\<close>.\<close>

definition getFieldPolicies_query :: "db \<Rightarrow> string option \<Rightarrow> field_policy_row list \<Rightarrow> bool" where
  "getFieldPolicies_query db resourceType fetched \<longleftrightarrow>
     sql_order_by (\<lambda>a b. fp_priority a \<ge> fp_priority b)
       (getFieldPolicies_selected db resourceType) fetched"

definition getFieldPolicies :: "db \<Rightarrow> field_policy_row list \<Rightarrow> field_policy list" where
  "getFieldPolicies db fetched =
     map (\<lambda>p. \<lparr>fp_row = p,
               fp_conditions = filter (\<lambda>c. policy_id c = fp_id p) (field_policy_conditions db)\<rparr>)
       fetched"

text \<open>
  The string \<^verbatim>\<open>regex.test(context.field.name || context.field.field_name)\<close> tests:
  \<open>test\<close> turns \<open>undefined\<close> into the text \<open>undefined\<close>.
\<close>

definition tested_field_name :: "eval_context \<Rightarrow> string" where
  "tested_field_name context =
     (case (case ctx_field context ''name'' of
              None \<Rightarrow> ctx_field context ''field_name''
            | Some n \<Rightarrow> if n \<noteq> [] then Some n else ctx_field context ''field_name'') of
        None \<Rightarrow> ''undefined''
      | Some n \<Rightarrow> n)"

definition evaluatePolicyConditions :: "js_builtins \<Rightarrow> field_policy \<Rightarrow> eval_context \<Rightarrow> bool" where
  "evaluatePolicyConditions js policy context =
     (if length (fp_conditions policy) = 0 then True
      else
        (case fp_field_pattern (fp_row policy) of
           None \<Rightarrow> list_all (\<lambda>c. evaluateCondition js c context) (fp_conditions policy)
         | Some field_pattern \<Rightarrow>
             if field_pattern = []
             then list_all (\<lambda>c. evaluateCondition js c context) (fp_conditions policy)
             else
               (case RegExp_i js field_pattern of
                  None \<Rightarrow> False
                | Some test \<Rightarrow>
                    if \<not> test (tested_field_name context) then False
                    else list_all (\<lambda>c. evaluateCondition js c context) (fp_conditions policy))))"

subsection \<open>The field-level engine: evaluateFieldAccess\<close>

record field_access =
  fa_effect :: field_effect
  fa_policy :: "field_policy option"
  fa_maskValue :: "string option"
  fa_reason :: string

text \<open>\<^verbatim>\<open>v || d\<close> for a string \<open>v\<close> that may be null: \<open>d\<close> when \<open>v\<close> is null or empty.\<close>

definition or_default :: "string option \<Rightarrow> string \<Rightarrow> string" where
  "or_default v d = (case v of None \<Rightarrow> d | Some s \<Rightarrow> if s = [] then d else s)"

text \<open>The \<open>for\<close> loop of evaluateFieldAccess; \<open>result\<close> is the variable it updates.\<close>

fun field_loop ::
  "js_builtins \<Rightarrow> eval_context \<Rightarrow> field_policy list \<Rightarrow> field_access \<Rightarrow> field_access" where
  "field_loop js context [] result = result"
| "field_loop js context (policy # rest) result =
     (if evaluatePolicyConditions js policy context then
        if fp_effect (fp_row policy) = DENY then
          \<lparr>fa_effect = DENY, fa_policy = Some policy, fa_maskValue = None,
           fa_reason = ''Denied by policy: '' @ fp_name (fp_row policy)\<rparr>
        else if fp_effect (fp_row policy) = REDACT then
          \<lparr>fa_effect = REDACT, fa_policy = Some policy,
           fa_maskValue = Some (or_default (fp_mask_value (fp_row policy)) ''***REDACTED***''),
           fa_reason = ''Redacted by policy: '' @ fp_name (fp_row policy)\<rparr>
        else
          (let result1 =
                 (if fp_effect (fp_row policy) = MASK then
                    \<lparr>fa_effect = MASK, fa_policy = Some policy,
                     fa_maskValue = fp_mask_value (fp_row policy),
                     fa_reason = ''Masked by policy: '' @ fp_name (fp_row policy)\<rparr>
                  else result);
               result2 =
                 (if fp_effect (fp_row policy) = ALLOW \<and> fa_effect result1 \<noteq> MASK then
                    \<lparr>fa_effect = ALLOW, fa_policy = Some policy, fa_maskValue = None,
                     fa_reason = ''Allowed by policy: '' @ fp_name (fp_row policy)\<rparr>
                  else result1)
           in field_loop js context rest result2)
      else field_loop js context rest result)"

text \<open>
  The context evaluateFieldAccess builds for a resource and a field it has found.
  \<open>environment\<close> holds the own properties of the object the caller passes, and a lookup
  in that object falls back on the inherited members.
\<close>

definition build_context ::
  "db \<Rightarrow> string \<Rightarrow> resource_row \<Rightarrow> field_row \<Rightarrow> string \<Rightarrow> attrs \<Rightarrow> eval_context" where
  "build_context db userId resource field action environment =
     \<lparr>ctx_user =
        assign_attributes (filter (\<lambda>a. owner_id a = userId) (user_attributes db))
          Object_prototype,
      ctx_resource =
        assign_attributes
          (filter (\<lambda>a. owner_id a = resource_id resource) (resource_attributes db))
          (Object_prototype
             (''type'' \<mapsto> resource_type resource, ''name'' \<mapsto> resource_name resource)),
      ctx_field =
        assign_attributes (filter (\<lambda>a. owner_id a = field_id field) (field_attributes db))
          (Object_prototype(''name'' \<mapsto> field_name field, ''type'' := field_type field)),
      ctx_action = action,
      ctx_environment = Object_prototype ++ environment\<rparr>"

text \<open>\<open>fetched\<close> is what the query of getFieldPolicies returned for the resource's type.\<close>

definition evaluateFieldAccess ::
  "js_builtins \<Rightarrow> db \<Rightarrow> field_policy_row list \<Rightarrow> string \<Rightarrow> string \<Rightarrow> string \<Rightarrow> string \<Rightarrow> attrs
     \<Rightarrow> field_access" where
  "evaluateFieldAccess js db fetched userId resourceId fieldId action environment =
     (case find (\<lambda>r. resource_id r = resourceId) (resources db) of
        None \<Rightarrow>
          \<lparr>fa_effect = DENY, fa_policy = None, fa_maskValue = None,
           fa_reason = ''Resource not found''\<rparr>
      | Some resource \<Rightarrow>
          (case find (\<lambda>f. field_id f = fieldId) (resource_fields db) of
             None \<Rightarrow>
               \<lparr>fa_effect = DENY, fa_policy = None, fa_maskValue = None,
                fa_reason = ''Field not found''\<rparr>
           | Some field \<Rightarrow>
               field_loop js (build_context db userId resource field action environment)
                 (getFieldPolicies db fetched)
                 \<lparr>fa_effect = DENY, fa_policy = None, fa_maskValue = None,
                  fa_reason = ''No matching allow policy''\<rparr>))"

subsection \<open>Masking and row filtering\<close>

text \<open>The \<open>switch\<close> of applyMask over the field type, for a value that is not null.\<close>

definition mask_by_type :: "js_builtins \<Rightarrow> string \<Rightarrow> string option \<Rightarrow> string" where
  "mask_by_type js strValue fieldType =
     (if fieldType = Some ''ssn'' then
        (if length strValue \<ge> 4 then ''***-**-'' @ slice_last4 strValue else ''***-**-****'')
      else if fieldType = Some ''credit_card'' then
        (if length strValue \<ge> 4 then ''****-****-****-'' @ slice_last4 strValue
         else ''****-****-****-****'')
      else if fieldType = Some ''phone'' then
        (if length strValue \<ge> 4 then ''(***) ***-'' @ slice_last4 strValue
         else ''(***) ***-****'')
      else if fieldType = Some ''email'' then
        (case indexOf_at strValue of
           None \<Rightarrow> ''****@****.***''
         | Some atIndex \<Rightarrow>
             if atIndex > 0 then ''****'' @ drop atIndex strValue else ''****@****.***'')
      else if fieldType = Some ''salary'' \<or> fieldType = Some ''currency'' then
        (let num = parseFloat js (filter (\<lambda>ch. ch \<in> set ''0123456789.-'') strValue)
         in if num = NaN then ''$***,***''
            else ''$***,*** ('' @
                 (if js_less num (Finite 50000) then ''<50k''
                  else if js_less num (Finite 100000) then ''50k-100k'' else ''>100k'') @ '')'')
      else
        (if length strValue \<le> 2 then ''***''
         else hd strValue # replicate (min (length strValue - 2) 5) CHR ''*'' @ [last strValue]))"

definition applyMask ::
  "js_builtins \<Rightarrow> string option \<Rightarrow> string option \<Rightarrow> string option \<Rightarrow> string option" where
  "applyMask js v fieldType maskPattern =
     (case v of
        None \<Rightarrow> None
      | Some strValue \<Rightarrow>
          (case maskPattern of
             None \<Rightarrow> Some (mask_by_type js strValue fieldType)
           | Some m \<Rightarrow> if m \<noteq> [] then Some m else Some (mask_by_type js strValue fieldType)))"

text \<open>
  A value of the object filterSingleRow returns: a cell, or the access log it stores
  under the key \<open>_accessControl\<close>.
\<close>

datatype js_value = Cell "string option" | AccessLog "string \<rightharpoonup> field_effect"

text \<open>
  What the database library throws when a statement is given \<open>undefined\<close> to bind
  (its message starts \<open>Wrong API use\<close>).
\<close>

datatype sqljs_error = Wrong_API_use

text \<open>
  The loop of filterSingleRow over \<open>Object.entries(row)\<close>, on \<open>filtered\<close> and \<open>accessLog\<close>.
  \<open>fieldMap\<close> holds the own properties of the table of fields. For a key the table does not
  hold, \<open>fieldMap[fieldName]\<close> is \<open>undefined\<close> and the value is copied, unless the key names a
  member of \<open>Object.prototype\<close>: then the lookup finds the inherited member, which is
  truthy and has no \<open>id\<close>, and evaluateFieldAccess is called with \<open>undefined\<close> for the
  field. That call denies when the resource is not found, and otherwise raises at the
  lookup of the field, where \<open>undefined\<close> is bound to the statement; the exception leaves
  filterSingleRow.
\<close>

fun filter_entries ::
  "js_builtins \<Rightarrow> db \<Rightarrow> field_policy_row list \<Rightarrow> string \<Rightarrow> string \<Rightarrow> (string \<rightharpoonup> field_row)
     \<Rightarrow> string \<Rightarrow> attrs \<Rightarrow> (string \<times> string option) list
     \<Rightarrow> (string \<rightharpoonup> js_value) \<times> (string \<rightharpoonup> field_effect)
     \<Rightarrow> sqljs_error + (string \<rightharpoonup> js_value) \<times> (string \<rightharpoonup> field_effect)" where
  "filter_entries js db fetched userId resourceId fieldMap action environment [] acc = Inr acc"
| "filter_entries js db fetched userId resourceId fieldMap action environment
     ((fieldName, v) # rest) (filtered, accessLog) =
     (case fieldMap fieldName of
        None \<Rightarrow>
          if fieldName \<in> set Object_prototype_keys then
            (case find (\<lambda>r. resource_id r = resourceId) (resources db) of
               None \<Rightarrow>
                 filter_entries js db fetched userId resourceId fieldMap action environment rest
                   (filtered, set_property fieldName DENY accessLog)
             | Some resource \<Rightarrow> Inl Wrong_API_use)
          else
            filter_entries js db fetched userId resourceId fieldMap action environment rest
              (filtered(fieldName \<mapsto> Cell v), accessLog)
      | Some field \<Rightarrow>
          (let access = evaluateFieldAccess js db fetched userId resourceId (field_id field)
                          action environment;
               accessLog1 = accessLog(fieldName \<mapsto> fa_effect access)
           in filter_entries js db fetched userId resourceId fieldMap action environment rest
                (case fa_effect access of
                   ALLOW \<Rightarrow> (filtered(fieldName \<mapsto> Cell v), accessLog1)
                 | MASK \<Rightarrow>
                     (filtered(fieldName \<mapsto>
                        Cell (applyMask js v (field_type field) (fa_maskValue access))),
                      accessLog1)
                 | REDACT \<Rightarrow>
                     (filtered(fieldName \<mapsto>
                        Cell (Some (or_default (fa_maskValue access) ''***REDACTED***''))),
                      accessLog1)
                 | DENY \<Rightarrow> (filtered, accessLog1))))"

definition filterSingleRow ::
  "js_builtins \<Rightarrow> db \<Rightarrow> field_policy_row list \<Rightarrow> string \<Rightarrow> string
     \<Rightarrow> (string \<times> string option) list \<Rightarrow> (string \<rightharpoonup> field_row) \<Rightarrow> string \<Rightarrow> attrs
     \<Rightarrow> sqljs_error + (string \<rightharpoonup> js_value)" where
  "filterSingleRow js db fetched userId resourceId row fieldMap action environment =
     (case filter_entries js db fetched userId resourceId fieldMap action environment row
             (Map.empty, Map.empty) of
        Inl err \<Rightarrow> Inl err
      | Inr (filtered, accessLog) \<Rightarrow>
          Inr (filtered(''_accessControl'' \<mapsto> AccessLog accessLog)))"

text \<open>
  The own properties of the lookup table filterResourceData and getFilteredResourceData
  build from the fields of the resource and hand to filterSingleRow.
\<close>

definition resource_fieldMap :: "db \<Rightarrow> string \<Rightarrow> (string \<rightharpoonup> field_row)" where
  "resource_fieldMap db resourceId =
     fold (\<lambda>f m. m(field_name f \<mapsto> f))
       (filter (\<lambda>f. field_resource_id f = resourceId) (resource_fields db)) Map.empty"

subsection \<open>Notions used in the statements\<close>

text \<open>
  What the two loops of the resource engine compute for a policy: the value of
  evaluateConditions on the conditions stored for it. The policy matches when this is
  \<open>Inr True\<close>, it does not match when it is \<open>Inr False\<close>, and the evaluation raises when it
  is \<open>Inl\<close>.
\<close>

definition policy_matches ::
  "js_builtins \<Rightarrow> db \<Rightarrow> attrs \<Rightarrow> attrs \<Rightarrow> attrs \<Rightarrow> string \<Rightarrow> policy \<Rightarrow> js_error + bool" where
  "policy_matches js db userAttrs resourceAttrs envAttrs action p =
     evaluateConditions js (filter (\<lambda>c. policy_id c = policy_ident p) (policy_conditions db))
       userAttrs resourceAttrs envAttrs action"

text \<open>
  Whether the value a resource-level condition reads is there: the attribute is in the
  bag its subject type names, or the subject is the action.
\<close>

definition actual_value_present :: "attrs \<Rightarrow> attrs \<Rightarrow> attrs \<Rightarrow> condition \<Rightarrow> bool" where
  "actual_value_present userAttrs resourceAttrs envAttrs c =
     (case subject_type c of
        Subj_user \<Rightarrow> userAttrs (attribute_name c) \<noteq> None
      | Subj_resource \<Rightarrow> resourceAttrs (attribute_name c) \<noteq> None
      | Subj_environment \<Rightarrow> envAttrs (attribute_name c) \<noteq> None
      | Subj_action \<Rightarrow> True
      | _ \<Rightarrow> False)"

subsection \<open>Example data\<close>

text \<open>
  A stand-in for the built-ins, used only to evaluate the examples below. It agrees
  with JavaScript on what the examples ask of it: the pattern \<open>(\<close> is rejected (the
  RegExp constructor raises a SyntaxError for the unterminated group), and a pattern
  made of letters is found where it occurs in the tested string, whatever the case of
  the letters. The examples parse no number.
\<close>

definition example_js :: js_builtins where
  "example_js =
     \<lparr>RegExp_i = (\<lambda>p. if p = ''('' then None
                      else Some (\<lambda>s. str_includes (toLowerCase s) (toLowerCase p))),
      Number = (\<lambda>s. NaN), parseFloat = (\<lambda>s. NaN),
      Date_toISOString = ''2024-01-01T00:00:00.000Z'', Date_getHours = ''0'',
      Date_weekday = ''Monday''\<rparr>"

text \<open>
  One user, one resource of type \<open>employee\<close>, and its field \<open>ssn\<close>; the examples add the
  policies they need.
\<close>

definition example_db :: db where
  "example_db =
     \<lparr>users = [\<lparr>user_id = ''u1'', username = ''alice'', email = None\<rparr>],
      user_attributes = [],
      resources = [\<lparr>resource_id = ''r1'', resource_name = ''staff'', resource_type = ''employee''\<rparr>],
      resource_attributes = [],
      environment_attributes = [],
      policies = [],
      policy_conditions = [],
      access_audit_log = [],
      resource_fields =
        [\<lparr>field_id = ''f1'', field_resource_id = ''r1'', field_name = ''ssn'',
          field_type = Some ''ssn''\<rparr>],
      field_attributes = [],
      field_policies = [],
      field_policy_conditions = []\<rparr>"

definition mask_high :: field_policy_row where
  "mask_high =
     \<lparr>fp_id = ''m1'', fp_name = ''mask high'', fp_resource_type = None, fp_field_pattern = None,
      fp_effect = MASK, fp_mask_value = Some ''HIGH'', fp_priority = 20, fp_is_active = 1,
      fp_created_at = 1\<rparr>"

definition mask_low :: field_policy_row where
  "mask_low =
     \<lparr>fp_id = ''m2'', fp_name = ''mask low'', fp_resource_type = None, fp_field_pattern = None,
      fp_effect = MASK, fp_mask_value = Some ''LOW'', fp_priority = 10, fp_is_active = 1,
      fp_created_at = 2\<rparr>"

definition allow_all :: field_policy_row where
  "allow_all =
     \<lparr>fp_id = ''a1'', fp_name = ''allow all'', fp_resource_type = None, fp_field_pattern = None,
      fp_effect = ALLOW, fp_mask_value = None, fp_priority = 5, fp_is_active = 1,
      fp_created_at = 3\<rparr>"

text \<open>
  Scenario C of the specification: a user of the engineering department, and a mask
  policy of priority 25 for fields named like \<open>ssn\<close>, on the condition that the user's
  department is not \<open>hr\<close>.
\<close>

definition mask_ssn :: field_policy_row where
  "mask_ssn =
     \<lparr>fp_id = ''M'', fp_name = ''mask ssn'', fp_resource_type = None,
      fp_field_pattern = Some ''ssn'', fp_effect = MASK, fp_mask_value = None,
      fp_priority = 25, fp_is_active = 1, fp_created_at = 1\<rparr>"

definition db_scenario :: db where
  "db_scenario =
     example_db
       \<lparr>user_attributes :=
          [\<lparr>owner_id = ''u1'', attr_name = ''department'', attr_value = ''engineering''\<rparr>],
        field_policies := [mask_ssn],
        field_policy_conditions :=
          [\<lparr>policy_id = ''M'', subject_type = Subj_user, attribute_name = ''department'',
            operator = Op_not_equals, attribute_value = ''hr''\<rparr>]\<rparr>"

text \<open>
  Three resource policies for the action \<open>read\<close>: one whose only condition is a \<open>matches\<close>
  with the invalid pattern \<open>(\<close>, a deny and an allow that both match.
\<close>

definition broken_policy :: policy where
  "broken_policy =
     \<lparr>policy_ident = ''px'', policy_name = ''broken pattern'', effect = Allow, priority = 100,
      is_active = 1, created_at = 1\<rparr>"

definition deny_reads :: policy where
  "deny_reads =
     \<lparr>policy_ident = ''pd'', policy_name = ''deny reads'', effect = Deny, priority = 50,
      is_active = 1, created_at = 2\<rparr>"

definition allow_reads :: policy where
  "allow_reads =
     \<lparr>policy_ident = ''pa'', policy_name = ''allow reads'', effect = Allow, priority = 10,
      is_active = 1, created_at = 3\<rparr>"

definition action_condition :: "string \<Rightarrow> operator \<Rightarrow> string \<Rightarrow> condition" where
  "action_condition pid opr val =
     \<lparr>policy_id = pid, subject_type = Subj_action, attribute_name = ''action'',
      operator = opr, attribute_value = val\<rparr>"

definition db_broken_deny_allow :: db where
  "db_broken_deny_allow =
     example_db
       \<lparr>policies := [broken_policy, deny_reads, allow_reads],
        policy_conditions :=
          [action_condition ''px'' Op_matches ''('',
           action_condition ''pd'' Op_equals ''read'',
           action_condition ''pa'' Op_equals ''read'']\<rparr>"

definition db_broken_only :: db where
  "db_broken_only =
     example_db
       \<lparr>policies := [broken_policy],
        policy_conditions := [action_condition ''px'' Op_matches ''('']\<rparr>"

text \<open>
  Two allow policies of equal priority that both match; the row stored first was
  created later.
\<close>

definition older_allow :: policy where
  "older_allow =
     \<lparr>policy_ident = ''p-old'', policy_name = ''older allow'', effect = Allow, priority = 10,
      is_active = 1, created_at = 100\<rparr>"

definition newer_allow :: policy where
  "newer_allow =
     \<lparr>policy_ident = ''p-new'', policy_name = ''newer allow'', effect = Allow, priority = 10,
      is_active = 1, created_at = 200\<rparr>"

text \<open>A mask policy that ties with \<open>mask_low\<close> on priority and was created before it.\<close>

definition mask_tie :: field_policy_row where
  "mask_tie = mask_high\<lparr>fp_priority := 10\<rparr>"

definition db_tie :: db where
  "db_tie =
     example_db
       \<lparr>policies := [newer_allow, older_allow],
        policy_conditions :=
          [action_condition ''p-old'' Op_equals ''read'',
           action_condition ''p-new'' Op_equals ''read''],
        field_policies := [mask_tie, mask_low]\<rparr>"

section \<open>Properties\<close>

subsection \<open>Evaluating the examples\<close>

lemmas example_field_defs =
  example_db_def mask_high_def mask_low_def allow_all_def getFieldPolicies_def
  build_context_def evaluatePolicyConditions_def assign_attributes_def set_property_def

lemmas example_policy_defs =
  example_db_def example_js_def broken_policy_def deny_reads_def allow_reads_def
  action_condition_def db_broken_deny_allow_def db_broken_only_def older_allow_def
  newer_allow_def db_tie_def mask_tie_def

lemmas resource_engine_defs =
  evaluate_def checkAccess_def getUserAttributes_def getResourceAttributes_def
  getEnvironmentAttributes_def evaluateConditions_def condition_matches_def
  logAndReturn_def assign_attributes_def set_property_def

subsection \<open>Conditions\<close>

text \<open>
  C9. The two engines disagree on a policy without conditions. In the resource-level
  engine evaluateConditions returns false on the empty list, for every attribute bag and
  action, so such a policy never matches. In the field-level engine
  evaluatePolicyConditions returns true for a policy whose list of conditions is empty
  and whose field pattern is absent, for every context.
\<close>

theorem empty_conditions_engines_disagree:
  "evaluateConditions js [] userAttrs resourceAttrs envAttrs action = Inr False
   \<and> evaluatePolicyConditions js
        \<lparr>fp_row = r\<lparr>fp_field_pattern := None\<rparr>, fp_conditions = []\<rparr> context = True"
  by (simp add: evaluateConditions_def evaluatePolicyConditions_def)

text \<open>
  In the field-level engine the empty list of conditions decides before the field
  pattern is looked at: a policy without conditions matches whatever its pattern.
\<close>

lemma empty_conditions_ignore_field_pattern:
  "fp_conditions policy = [] \<Longrightarrow> evaluatePolicyConditions js policy context"
  by (simp add: evaluatePolicyConditions_def)

text \<open>
  C3. A condition with operator \<open>matches\<close> whose expected value is an invalid pattern. In
  the field-level evaluator the condition evaluates to false in every context, as the
  claim says. In the resource-level evaluator the claim fails: whenever the value the
  condition reads is present, evaluateConditions raises the SyntaxError of the RegExp
  constructor; it returns false only when that value is absent.
\<close>

theorem matches_invalid_pattern:
  assumes "operator c = Op_matches" and "RegExp_i js (attribute_value c) = None"
  shows "evaluateCondition js c context = False
     \<and> (actual_value_present userAttrs resourceAttrs envAttrs c \<longrightarrow>
          evaluateConditions js [c] userAttrs resourceAttrs envAttrs action = Inl SyntaxError)
     \<and> (\<not> actual_value_present userAttrs resourceAttrs envAttrs c \<longrightarrow>
          evaluateConditions js [c] userAttrs resourceAttrs envAttrs action = Inr False)"
  using assms
  by (auto simp: evaluateConditions_def condition_matches_def evaluateCondition_def
      actual_value_present_def split: subject_type.splits option.splits)

theorem matches_invalid_pattern_witness:
  "RegExp_i example_js ''('' = None
   \<and> actual_value_present Map.empty Map.empty Map.empty (action_condition ''px'' Op_matches ''('')
   \<and> evaluateConditions example_js [action_condition ''px'' Op_matches ''(''] Map.empty Map.empty
        Map.empty ''read'' = Inl SyntaxError
   \<and> evaluateCondition example_js (action_condition ''px'' Op_matches ''('')
        \<lparr>ctx_user = Map.empty, ctx_resource = Map.empty, ctx_field = Map.empty,
         ctx_action = ''read'', ctx_environment = Map.empty\<rparr> = False"
proof -
  have h1: "operator (action_condition ''px'' Op_matches ''('') = Op_matches"
    by (simp add: action_condition_def)
  have h2: "RegExp_i example_js (attribute_value (action_condition ''px'' Op_matches ''('')) = None"
    by (simp add: action_condition_def example_js_def)
  have h3: "actual_value_present Map.empty Map.empty Map.empty
              (action_condition ''px'' Op_matches ''('')"
    by (simp add: action_condition_def actual_value_present_def)
  from matches_invalid_pattern[OF h1 h2, of _ Map.empty Map.empty Map.empty "''read''"] h2 h3
  show ?thesis
    by (simp add: action_condition_def)
qed

subsection \<open>The resource-level decision\<close>

text \<open>
  What the resource engine decides when no condition raises. The two loops are the same
  function; the decision is the denial of the first matching deny policy of the scanned
  list, else the allowance of its first matching policy, else the default denial.
\<close>

lemma checkAccess_loop_is_evaluate_loop:
  "checkAccess_loop js db userAttrs resourceAttrs envAttrs action ps acc
     = evaluate_loop js db userAttrs resourceAttrs envAttrs action ps acc"
  by (induction ps arbitrary: acc) (auto split: sum.splits bool.splits)

lemma evaluate_loop_characterised:
  assumes "\<forall>p\<in>set ps. \<exists>b. policy_matches js db userAttrs resourceAttrs envAttrs action p = Inr b"
  shows "evaluate_loop js db userAttrs resourceAttrs envAttrs action ps acc =
     Inr (case find (\<lambda>p. policy_matches js db userAttrs resourceAttrs envAttrs action p = Inr True
                          \<and> effect p = Deny) ps of
            Some d \<Rightarrow> Returned_deny d
          | None \<Rightarrow>
              Finished (case acc of
                          Some a \<Rightarrow> Some a
                        | None \<Rightarrow>
                            find (\<lambda>p. policy_matches js db userAttrs resourceAttrs envAttrs
                                        action p = Inr True) ps))"
  using assms
proof (induction ps arbitrary: acc)
  case Nil
  then show ?case by (simp split: option.splits)
next
  case (Cons p ps)
  from Cons.prems obtain b where b: "policy_matches js db userAttrs resourceAttrs envAttrs action p = Inr b"
    by auto
  from Cons.prems have rest: "\<forall>p\<in>set ps. \<exists>b. policy_matches js db userAttrs resourceAttrs envAttrs action p = Inr b"
    by simp
  show ?case
  proof (cases b)
    case True
    show ?thesis
    proof (cases "effect p")
      case Allow
      with b True Cons.IH[OF rest] show ?thesis
        by (cases acc) (simp_all add: policy_matches_def split: option.splits)
    next
      case Deny
      with b True show ?thesis by (simp add: policy_matches_def)
    qed
  next
    case False
    with b Cons.IH[OF rest] show ?thesis
      by (simp add: policy_matches_def split: option.splits)
  qed
qed

lemma checkAccess_characterised:
  assumes "getUserAttributes db userId = Some userAttrs"
    and "getResourceAttributes db resourceId = Some resourceAttrs"
    and "envAttrs = getEnvironmentAttributes js db"
    and "\<forall>p\<in>set fetched. \<exists>b. policy_matches js db userAttrs resourceAttrs envAttrs action p = Inr b"
  shows "checkAccess js db fetched userId resourceId action =
     Inr (case find (\<lambda>p. policy_matches js db userAttrs resourceAttrs envAttrs action p = Inr True
                          \<and> effect p = Deny) fetched of
            Some d \<Rightarrow>
              \<lparr>ck_allowed = False, ck_reason = ''Denied by policy: '' @ policy_name d,
               ck_policy = Some d\<rparr>
          | None \<Rightarrow>
              (case find (\<lambda>p. policy_matches js db userAttrs resourceAttrs envAttrs action p
                               = Inr True) fetched of
                 Some a \<Rightarrow>
                   \<lparr>ck_allowed = True, ck_reason = ''Allowed by policy: '' @ policy_name a,
                    ck_policy = Some a\<rparr>
               | None \<Rightarrow>
                   \<lparr>ck_allowed = False, ck_reason = ''No applicable policy - default deny'',
                    ck_policy = None\<rparr>))"
  using assms(1-3) evaluate_loop_characterised[OF assms(4), of None]
  by (simp add: checkAccess_def checkAccess_loop_is_evaluate_loop split: option.splits)

lemma evaluate_characterised:
  assumes "getUserAttributes db userId = Some userAttrs"
    and "getResourceAttributes db resourceId = Some resourceAttrs"
    and "envAttrs = getEnvironmentAttributes js db"
    and "\<forall>p\<in>set fetched. \<exists>b. policy_matches js db userAttrs resourceAttrs envAttrs action p = Inr b"
  shows "snd (evaluate js db fetched userId resourceId action) =
     Inr (case find (\<lambda>p. policy_matches js db userAttrs resourceAttrs envAttrs action p = Inr True
                          \<and> effect p = Deny) fetched of
            Some d \<Rightarrow>
              \<lparr>allowed = False, reason = ''Denied by policy: '' @ policy_name d,
               policyId = Some (policy_ident d)\<rparr>
          | None \<Rightarrow>
              (case find (\<lambda>p. policy_matches js db userAttrs resourceAttrs envAttrs action p
                               = Inr True) fetched of
                 Some a \<Rightarrow>
                   \<lparr>allowed = True, reason = ''Allowed by policy: '' @ policy_name a,
                    policyId = Some (policy_ident a)\<rparr>
               | None \<Rightarrow>
                   \<lparr>allowed = False, reason = ''No applicable policy found - default deny'',
                    policyId = None\<rparr>))"
  using assms(1-3) evaluate_loop_characterised[OF assms(4), of None]
  by (simp add: evaluate_def logAndReturn_def split: option.splits)

text \<open>
  Deny overrides and default deny, for every list of rows, whenever the evaluation of
  every scanned policy returns.
\<close>

lemma deny_overrides_unless_raised:
  assumes "getUserAttributes db userId = Some userAttrs"
    and "getResourceAttributes db resourceId = Some resourceAttrs"
    and "envAttrs = getEnvironmentAttributes js db"
    and "\<forall>p\<in>set fetched. \<exists>b. policy_matches js db userAttrs resourceAttrs envAttrs action p = Inr b"
    and "d \<in> set fetched" and "effect d = Deny"
    and "policy_matches js db userAttrs resourceAttrs envAttrs action d = Inr True"
  shows "\<exists>d'. d' \<in> set fetched \<and> effect d' = Deny
       \<and> policy_matches js db userAttrs resourceAttrs envAttrs action d' = Inr True
       \<and> checkAccess js db fetched userId resourceId action =
           Inr \<lparr>ck_allowed = False, ck_reason = ''Denied by policy: '' @ policy_name d',
                ck_policy = Some d'\<rparr>
       \<and> snd (evaluate js db fetched userId resourceId action) =
           Inr \<lparr>allowed = False, reason = ''Denied by policy: '' @ policy_name d',
                policyId = Some (policy_ident d')\<rparr>"
proof -
  let ?D = "\<lambda>p. policy_matches js db userAttrs resourceAttrs envAttrs action p = Inr True
                          \<and> effect p = Deny"
  from assms(5-7) have "find ?D fetched \<noteq> None" by (auto simp: find_None_iff)
  then obtain d' where d': "find ?D fetched = Some d'" by auto
  then have "d' \<in> set fetched" "?D d'" by (auto simp: find_Some_iff)
  with d' checkAccess_characterised[OF assms(1-4)] evaluate_characterised[OF assms(1-4)]
  show ?thesis by auto
qed

lemma default_deny_unless_raised:
  assumes "getUserAttributes db userId = Some userAttrs"
    and "getResourceAttributes db resourceId = Some resourceAttrs"
    and "envAttrs = getEnvironmentAttributes js db"
    and "\<forall>p\<in>set fetched. policy_matches js db userAttrs resourceAttrs envAttrs action p = Inr False"
  shows "checkAccess js db fetched userId resourceId action =
           Inr \<lparr>ck_allowed = False, ck_reason = ''No applicable policy - default deny'',
                ck_policy = None\<rparr>
       \<and> snd (evaluate js db fetched userId resourceId action) =
           Inr \<lparr>allowed = False, reason = ''No applicable policy found - default deny'',
                policyId = None\<rparr>"
proof -
  let ?D = "\<lambda>p. policy_matches js db userAttrs resourceAttrs envAttrs action p = Inr True
                          \<and> effect p = Deny"
  let ?A = "\<lambda>p. policy_matches js db userAttrs resourceAttrs envAttrs action p = Inr True"
  from assms(4) have ret: "\<forall>p\<in>set fetched. \<exists>b. policy_matches js db userAttrs resourceAttrs envAttrs action p = Inr b"
    by auto
  from assms(4) have "find ?D fetched = None" "find ?A fetched = None"
    by (auto simp: find_None_iff)
  with checkAccess_characterised[OF assms(1-3) ret] evaluate_characterised[OF assms(1-3) ret]
  show ?thesis by simp
qed

text \<open>
  C1. At this input the claim fails. The active policies are a policy under which the
  evaluation of \<open>matches\<close> raises (priority 100), a matching deny (priority 50) and a
  matching allow (priority 10); both queries admit them in this order. The scan raises at
  the first policy and never reaches the deny: evaluate and checkAccess end with the
  SyntaxError instead of a denial, and evaluate logs nothing.
\<close>

theorem deny_overrides_failing_input:
  "evaluate_query db_broken_deny_allow [broken_policy, deny_reads, allow_reads]
   \<and> checkAccess_query db_broken_deny_allow [broken_policy, deny_reads, allow_reads]
   \<and> effect deny_reads = Deny
   \<and> (\<forall>ua ra ea. policy_matches example_js db_broken_deny_allow ua ra ea ''read'' deny_reads
          = Inr True)
   \<and> effect allow_reads = Allow
   \<and> (\<forall>ua ra ea. policy_matches example_js db_broken_deny_allow ua ra ea ''read'' allow_reads
          = Inr True)
   \<and> evaluate example_js db_broken_deny_allow [broken_policy, deny_reads, allow_reads]
        ''u1'' ''r1'' ''read'' = (db_broken_deny_allow, Inl SyntaxError)
   \<and> checkAccess example_js db_broken_deny_allow [broken_policy, deny_reads, allow_reads]
        ''u1'' ''r1'' ''read'' = Inl SyntaxError"
  by (simp add: evaluate_query_def checkAccess_query_def sql_order_by_def policy_matches_def
      resource_engine_defs example_policy_defs)

text \<open>
  C2. At this input the claim fails. The user and the resource are known, and the only
  active policy does not match, because the evaluation of its condition raises;
  checkAccess and evaluate end with the SyntaxError instead of the default denial.
\<close>

theorem default_deny_failing_input:
  "checkAccess_query db_broken_only [broken_policy]
   \<and> evaluate_query db_broken_only [broken_policy]
   \<and> getUserAttributes db_broken_only ''u1'' \<noteq> None
   \<and> getResourceAttributes db_broken_only ''r1'' \<noteq> None
   \<and> (\<forall>ua ra ea. policy_matches example_js db_broken_only ua ra ea ''read'' broken_policy
          \<noteq> Inr True)
   \<and> checkAccess example_js db_broken_only [broken_policy] ''u1'' ''r1'' ''read''
        = Inl SyntaxError
   \<and> evaluate example_js db_broken_only [broken_policy] ''u1'' ''r1'' ''read''
        = (db_broken_only, Inl SyntaxError)"
  by (simp add: evaluate_query_def checkAccess_query_def sql_order_by_def policy_matches_def
      resource_engine_defs example_policy_defs)

subsection \<open>The two resource evaluations and the order of a listing\<close>

text \<open>
  Whatever rows the two queries return, evaluate and checkAccess agree on the flag
  \<open>allowed\<close> when no condition raises; on the same rows they agree on the cited policy.
\<close>

lemma same_allowed_flag_unless_raised:
  assumes "getUserAttributes db userId = Some userAttrs"
    and "getResourceAttributes db resourceId = Some resourceAttrs"
    and "envAttrs = getEnvironmentAttributes js db"
    and "evaluate_query db fetched1" and "checkAccess_query db fetched2"
    and "\<forall>p\<in>set (policies db). \<exists>b. policy_matches js db userAttrs resourceAttrs envAttrs action p = Inr b"
  shows "\<exists>d c. snd (evaluate js db fetched1 userId resourceId action) = Inr d
       \<and> checkAccess js db fetched2 userId resourceId action = Inr c
       \<and> allowed d = ck_allowed c"
proof -
  let ?D = "\<lambda>p. policy_matches js db userAttrs resourceAttrs envAttrs action p = Inr True
                          \<and> effect p = Deny"
  let ?A = "\<lambda>p. policy_matches js db userAttrs resourceAttrs envAttrs action p = Inr True"
  from assms(4) have s1: "set fetched1 = set (filter (\<lambda>p. is_active p = 1) (policies db))"
    unfolding evaluate_query_def sql_order_by_def by (blast dest: mset_eq_setD)
  from assms(5) have s2: "set fetched2 = set (filter (\<lambda>p. is_active p = 1) (policies db))"
    unfolding checkAccess_query_def sql_order_by_def by (blast dest: mset_eq_setD)
  from s1 assms(6) have r1: "\<forall>p\<in>set fetched1. \<exists>b. policy_matches js db userAttrs resourceAttrs envAttrs action p = Inr b"
    by auto
  from s2 assms(6) have r2: "\<forall>p\<in>set fetched2. \<exists>b. policy_matches js db userAttrs resourceAttrs envAttrs action p = Inr b"
    by auto
  from s1 s2 have same: "set fetched1 = set fetched2" by simp
  then have "(find ?D fetched1 = None) = (find ?D fetched2 = None)"
     and "(find ?A fetched1 = None) = (find ?A fetched2 = None)"
    by (simp_all add: find_None_iff)
  then show ?thesis
    unfolding evaluate_characterised[OF assms(1-3) r1] checkAccess_characterised[OF assms(1-3) r2]
    by (auto split: option.splits)
qed

lemma same_rows_same_decision:
  "(case (snd (evaluate js db fetched userId resourceId action),
          checkAccess js db fetched userId resourceId action) of
      (Inr d, Inr c) \<Rightarrow>
        allowed d = ck_allowed c \<and> policyId d = map_option policy_ident (ck_policy c)
    | (Inl e, Inl e') \<Rightarrow> e = e'
    | _ \<Rightarrow> False)"
  by (simp add: evaluate_def checkAccess_def logAndReturn_def checkAccess_loop_is_evaluate_loop
      split: option.splits sum.splits loop_exit.splits)

text \<open>
  Every listing is sorted by priority, the highest first, and a list the query of
  evaluate admits is one the query of checkAccess admits.
\<close>

lemma evaluate_query_is_checkAccess_query:
  "evaluate_query db fetched \<Longrightarrow> checkAccess_query db fetched"
  unfolding evaluate_query_def checkAccess_query_def sql_order_by_def
  by (auto elim: sorted_wrt_mono_rel[rotated])

lemma resource_listings_sorted_by_priority:
  "checkAccess_query db fetched \<Longrightarrow> sorted_wrt (\<lambda>a b. priority a \<ge> priority b) fetched"
  by (simp add: checkAccess_query_def sql_order_by_def)

text \<open>Only the query of evaluate orders a tie on priority, by the time of creation.\<close>

lemma evaluate_listing_ties_by_creation:
  "evaluate_query db fetched \<Longrightarrow>
     sorted_wrt (\<lambda>a b. priority a = priority b \<longrightarrow> created_at a \<le> created_at b) fetched"
  unfolding evaluate_query_def sql_order_by_def
  by (auto elim: sorted_wrt_mono_rel[rotated])

lemma sorted_wrt_last:
  "sorted_wrt P xs \<Longrightarrow> x \<in> set xs \<Longrightarrow> (\<And>y. P y y) \<Longrightarrow> P x (last xs)"
  by (induction xs) auto

lemma listing_sorted_by_priority:
  assumes "getFieldPolicies_query db resourceType fetched"
  shows "sorted_wrt (\<lambda>a b. fp_priority (fp_row a) \<ge> fp_priority (fp_row b))
           (getFieldPolicies db fetched)"
  using assms
  by (simp add: getFieldPolicies_query_def sql_order_by_def getFieldPolicies_def
      sorted_wrt_map)

text \<open>A listing of two rows is one of their two arrangements.\<close>

lemma two_row_listings:
  assumes "mset ps = mset [a, b]"
  shows "ps = [a, b] \<or> ps = [b, a]"
proof -
  from assms have "size (mset ps) = size (mset [a, b])" by (rule arg_cong)
  then have "length ps = Suc (Suc 0)" by simp
  then obtain x y where ps: "ps = [x, y]"
    by (auto simp: length_Suc_conv)
  from assms have "set ps = set [a, b]" by (rule mset_eq_setD)
  with ps have "{x, y} = {a, b}" by simp
  then have "(x = a \<and> y = b) \<or> (x = b \<and> y = a)"
    by (simp add: doubleton_eq_iff)
  with ps show ?thesis by auto
qed

text \<open>In the example of the tie, the query of evaluate admits one order only.\<close>

lemma evaluate_query_tie: "{ps. evaluate_query db_tie ps} = {[older_allow, newer_allow]}"
proof -
  have sel: "filter (\<lambda>p. is_active p = 1) (policies db_tie) = [newer_allow, older_allow]"
    by (simp add: example_policy_defs)
  have ok: "evaluate_query db_tie [older_allow, newer_allow]"
    by (simp add: evaluate_query_def sql_order_by_def example_policy_defs)
  have no: "\<not> evaluate_query db_tie [newer_allow, older_allow]"
    by (simp add: evaluate_query_def sql_order_by_def example_policy_defs)
  have "ps = [older_allow, newer_allow]" if q: "evaluate_query db_tie ps" for ps
  proof -
    from q have "mset ps = mset (filter (\<lambda>p. is_active p = 1) (policies db_tie))"
      unfolding evaluate_query_def sql_order_by_def by (rule conjunct1)
    then have "mset ps = mset [newer_allow, older_allow]"
      unfolding sel .
    then have "ps = [newer_allow, older_allow] \<or> ps = [older_allow, newer_allow]"
      by (rule two_row_listings)
    with q no show ?thesis by blast
  qed
  with ok show ?thesis by blast
qed

text \<open>
  C4. At this input evaluate and checkAccess cite different policies. Two matching allow
  policies tie on priority. The query of evaluate admits them in the order of their
  creation only, and evaluate cites the older one; the query of checkAccess, which has
  no second ordering term, also admits the other order, and checkAccess then cites the
  policy created later.
\<close>

theorem decisions_differ_on_priority_tie:
  "{ps. evaluate_query db_tie ps} = {[older_allow, newer_allow]}
   \<and> checkAccess_query db_tie [newer_allow, older_allow]
   \<and> snd (evaluate example_js db_tie [older_allow, newer_allow] ''u1'' ''r1'' ''read'')
       = Inr \<lparr>allowed = True, reason = ''Allowed by policy: older allow'',
              policyId = Some ''p-old''\<rparr>
   \<and> checkAccess example_js db_tie [newer_allow, older_allow] ''u1'' ''r1'' ''read''
       = Inr \<lparr>ck_allowed = True, ck_reason = ''Allowed by policy: newer allow'',
              ck_policy = Some newer_allow\<rparr>"
proof (intro conjI)
  show "{ps. evaluate_query db_tie ps} = {[older_allow, newer_allow]}"
    by (rule evaluate_query_tie)
  show "checkAccess_query db_tie [newer_allow, older_allow]"
    by (simp add: checkAccess_query_def sql_order_by_def example_policy_defs)
  show "snd (evaluate example_js db_tie [older_allow, newer_allow] ''u1'' ''r1'' ''read'')
       = Inr \<lparr>allowed = True, reason = ''Allowed by policy: older allow'',
              policyId = Some ''p-old''\<rparr>"
    by (simp add: resource_engine_defs example_policy_defs)
  show "checkAccess example_js db_tie [newer_allow, older_allow] ''u1'' ''r1'' ''read''
       = Inr \<lparr>ck_allowed = True, ck_reason = ''Allowed by policy: newer allow'',
              ck_policy = Some newer_allow\<rparr>"
    by (simp add: resource_engine_defs example_policy_defs)
qed

text \<open>
  C7. Only the query of evaluate orders policies of equal priority by their creation.
  For two policies of equal priority the query of checkAccess admits both orders, and so
  does the query of getFieldPolicies for two field policies of equal priority, where the
  two orders give different mask values.
\<close>

theorem tie_order_not_fixed_by_listing:
  "priority older_allow = priority newer_allow
   \<and> created_at older_allow < created_at newer_allow
   \<and> evaluate_query db_tie [older_allow, newer_allow]
   \<and> \<not> evaluate_query db_tie [newer_allow, older_allow]
   \<and> checkAccess_query db_tie [older_allow, newer_allow]
   \<and> checkAccess_query db_tie [newer_allow, older_allow]
   \<and> fp_priority (mask_tie) = fp_priority mask_low
   \<and> fp_created_at (mask_tie) < fp_created_at mask_low
   \<and> getFieldPolicies_query db_tie (Some ''employee'') [mask_tie, mask_low]
   \<and> getFieldPolicies_query db_tie (Some ''employee'') [mask_low, mask_tie]
   \<and> fa_maskValue (evaluateFieldAccess example_js db_tie
         [mask_tie, mask_low] ''u1'' ''r1'' ''f1'' ''read'' Map.empty)
       = Some ''LOW''
   \<and> fa_maskValue (evaluateFieldAccess example_js db_tie
         [mask_low, mask_tie] ''u1'' ''r1'' ''f1'' ''read'' Map.empty)
       = Some ''HIGH''"
  by (simp add: evaluate_query_def checkAccess_query_def sql_order_by_def
      getFieldPolicies_query_def getFieldPolicies_selected_def evaluateFieldAccess_def
      mask_high_def mask_low_def getFieldPolicies_def build_context_def
      evaluatePolicyConditions_def example_policy_defs Let_def)

subsection \<open>The field-level scan\<close>

lemma mask_sticks:
  "fa_effect result = MASK \<Longrightarrow> fa_effect (field_loop js context ps result) \<noteq> ALLOW"
  by (induction ps arbitrary: result) (auto simp: Let_def)

lemma matching_mask_excludes_allow:
  "\<lbrakk>m \<in> set ps; evaluatePolicyConditions js m context; fp_effect (fp_row m) = MASK\<rbrakk>
   \<Longrightarrow> fa_effect (field_loop js context ps result) \<noteq> ALLOW"
proof (induction ps arbitrary: result)
  case Nil
  then show ?case by simp
next
  case (Cons p ps)
  show ?case
  proof (cases "p = m")
    case True
    with Cons.prems show ?thesis by (simp add: Let_def mask_sticks)
  next
    case False
    with Cons.prems have "m \<in> set ps" by simp
    from Cons.IH[OF this Cons.prems(2,3)] show ?thesis
      by (simp add: Let_def)
  qed
qed

text \<open>
  C6. A recorded mask is never downgraded by a later allow. Let evaluateFieldAccess find
  the resource and the field, and let a policy with effect mask match at position \<open>i\<close> of
  the scanned list and a policy with effect allow match at a later position \<open>j\<close>. Then the
  effect returned is not allow. This holds for every list the scan is given, so for
  every list the priority-ordered query admits.
\<close>

theorem mask_not_downgraded_by_later_allow:
  assumes "find (\<lambda>r. resource_id r = resourceId) (resources db) = Some resource"
    and "find (\<lambda>f. field_id f = fieldId) (resource_fields db) = Some field"
    and "ps = getFieldPolicies db fetched"
    and "context = build_context db userId resource field action environment"
    and "i < j" and "j < length ps"
    and "fp_effect (fp_row (ps ! i)) = MASK"
    and "evaluatePolicyConditions js (ps ! i) context"
    and "fp_effect (fp_row (ps ! j)) = ALLOW"
    and "evaluatePolicyConditions js (ps ! j) context"
  shows "fa_effect (evaluateFieldAccess js db fetched userId resourceId fieldId action environment)
           \<noteq> ALLOW"
proof -
  from assms(5,6) have "ps ! i \<in> set ps" by simp
  from matching_mask_excludes_allow[OF this assms(8,7)] assms(1-4)
  show ?thesis by (simp add: evaluateFieldAccess_def)
qed

theorem mask_not_downgraded_witness:
  "fp_effect (fp_row (getFieldPolicies (example_db\<lparr>field_policies := [mask_high, allow_all]\<rparr>)
       [mask_high, allow_all] ! 0)) = MASK
   \<and> fp_effect (fp_row (getFieldPolicies (example_db\<lparr>field_policies := [mask_high, allow_all]\<rparr>)
       [mask_high, allow_all] ! 1)) = ALLOW
   \<and> getFieldPolicies_query (example_db\<lparr>field_policies := [mask_high, allow_all]\<rparr>)
        (Some ''employee'') [mask_high, allow_all]
   \<and> fa_effect (evaluateFieldAccess example_js (example_db\<lparr>field_policies := [mask_high, allow_all]\<rparr>)
        [mask_high, allow_all] ''u1'' ''r1'' ''f1'' ''read'' Map.empty) = MASK"
proof -
  let ?db = "example_db\<lparr>field_policies := [mask_high, allow_all]\<rparr>"
  let ?res = "\<lparr>resource_id = ''r1'', resource_name = ''staff'', resource_type = ''employee''\<rparr>"
  let ?fld = "\<lparr>field_id = ''f1'', field_resource_id = ''r1'', field_name = ''ssn'',
          field_type = Some ''ssn''\<rparr>"
  have h1: "find (\<lambda>r. resource_id r = ''r1'') (resources ?db) = Some ?res"
    by (simp add: example_db_def)
  have h2: "find (\<lambda>f. field_id f = ''f1'') (resource_fields ?db) = Some ?fld"
    by (simp add: example_db_def)
  have h7: "fp_effect (fp_row (getFieldPolicies ?db [mask_high, allow_all] ! 0)) = MASK"
    by (simp add: example_field_defs)
  have h9: "fp_effect (fp_row (getFieldPolicies ?db [mask_high, allow_all] ! 1)) = ALLOW"
    by (simp add: example_field_defs)
  have h8: "evaluatePolicyConditions example_js (getFieldPolicies ?db [mask_high, allow_all] ! 0)
              (build_context ?db ''u1'' ?res ?fld ''read'' Map.empty)"
    by (simp add: example_field_defs)
  have h10: "evaluatePolicyConditions example_js (getFieldPolicies ?db [mask_high, allow_all] ! 1)
              (build_context ?db ''u1'' ?res ?fld ''read'' Map.empty)"
    by (simp add: example_field_defs)
  have q: "getFieldPolicies_query ?db (Some ''employee'') [mask_high, allow_all]"
    by (simp add: getFieldPolicies_query_def getFieldPolicies_selected_def sql_order_by_def
        example_field_defs)
  have e: "fa_effect (evaluateFieldAccess example_js ?db [mask_high, allow_all]
             ''u1'' ''r1'' ''f1'' ''read'' Map.empty) \<in> {MASK, ALLOW}"
    by (simp add: evaluateFieldAccess_def example_field_defs Let_def)
  from mask_not_downgraded_by_later_allow[OF h1 h2 refl refl _ _ h7 h8 h9 h10, of 
      ]
  have "fa_effect (evaluateFieldAccess example_js ?db [mask_high, allow_all]
             ''u1'' ''r1'' ''f1'' ''read'' Map.empty) \<noteq> ALLOW"
    by (simp add: getFieldPolicies_def)
  with e h7 h9 q show ?thesis by simp
qed

text \<open>
  Once the accumulator holds a mask, policies with effect allow leave it as it is.
\<close>

lemma mask_kept_without_overrides:
  assumes "fa_effect result = MASK"
    and "\<forall>p\<in>set ps. evaluatePolicyConditions js p context \<longrightarrow> fp_effect (fp_row p) = ALLOW"
  shows "field_loop js context ps result = result"
  using assms by (induction ps arbitrary: result) (auto simp: Let_def)

lemma field_loop_last_mask:
  assumes "\<forall>p\<in>set ps. evaluatePolicyConditions js p context \<longrightarrow>
             fp_effect (fp_row p) \<noteq> DENY \<and> fp_effect (fp_row p) \<noteq> REDACT"
    and "filter (\<lambda>p. evaluatePolicyConditions js p context \<and> fp_effect (fp_row p) = MASK) ps \<noteq> []"
  shows "field_loop js context ps result =
           (let m = last (filter (\<lambda>p. evaluatePolicyConditions js p context
                                       \<and> fp_effect (fp_row p) = MASK) ps)
            in \<lparr>fa_effect = MASK, fa_policy = Some m, fa_maskValue = fp_mask_value (fp_row m),
                fa_reason = ''Masked by policy: '' @ fp_name (fp_row m)\<rparr>)"
  using assms
proof (induction ps arbitrary: result)
  case Nil
  then show ?case by simp
next
  case (Cons p ps)
  let ?M = "\<lambda>p. evaluatePolicyConditions js p context \<and> fp_effect (fp_row p) = MASK"
  have no_end: "\<forall>q\<in>set ps. evaluatePolicyConditions js q context \<longrightarrow>
             fp_effect (fp_row q) \<noteq> DENY \<and> fp_effect (fp_row q) \<noteq> REDACT"
    using Cons.prems(1) by simp
  show ?case
  proof (cases "filter ?M ps = []")
    case True
    with Cons.prems(2) have pm: "evaluatePolicyConditions js p context" "fp_effect (fp_row p) = MASK"
      by (auto split: if_splits)
    have rest_allow: "\<forall>q\<in>set ps. evaluatePolicyConditions js q context \<longrightarrow> fp_effect (fp_row q) = ALLOW"
    proof (intro ballI impI)
      fix q assume q: "q \<in> set ps" "evaluatePolicyConditions js q context"
      with True have "fp_effect (fp_row q) \<noteq> MASK" by (auto simp: filter_empty_conv)
      moreover from no_end q have "fp_effect (fp_row q) \<noteq> DENY" "fp_effect (fp_row q) \<noteq> REDACT"
        by auto
      ultimately show "fp_effect (fp_row q) = ALLOW" by (cases "fp_effect (fp_row q)") auto
    qed
    show ?thesis
      using pm True mask_kept_without_overrides[OF _ rest_allow]
      by (simp add: Let_def)
  next
    case False
    from Cons.IH[OF no_end False] Cons.prems(1) False
    show ?thesis by (auto simp: Let_def)
  qed
qed

text \<open>
  C5, as amended. In the scan of evaluateFieldAccess a matching policy with effect mask
  replaces the accumulator whatever it holds. So when mask policies match and no
  matching deny or redact policy ends the scan, the effect returned is mask, and the
  cited policy and the mask value are those of the last matching mask policy in scan
  order; in a list the query admits, no matching mask policy has a lower priority.
\<close>

theorem last_matching_mask_is_returned:
  assumes "find (\<lambda>r. resource_id r = resourceId) (resources db) = Some resource"
    and "find (\<lambda>f. field_id f = fieldId) (resource_fields db) = Some field"
    and "getFieldPolicies_query db (Some (resource_type resource)) fetched"
    and "context = build_context db userId resource field action environment"
    and "ms = filter (\<lambda>p. evaluatePolicyConditions js p context \<and> fp_effect (fp_row p) = MASK)
                (getFieldPolicies db fetched)"
    and "ms \<noteq> []"
    and "\<forall>p\<in>set (getFieldPolicies db fetched). evaluatePolicyConditions js p context \<longrightarrow>
           fp_effect (fp_row p) \<noteq> DENY \<and> fp_effect (fp_row p) \<noteq> REDACT"
  shows "fa_effect (evaluateFieldAccess js db fetched userId resourceId fieldId action environment)
           = MASK
     \<and> fa_policy (evaluateFieldAccess js db fetched userId resourceId fieldId action environment)
           = Some (last ms)
     \<and> fa_maskValue (evaluateFieldAccess js db fetched userId resourceId fieldId action environment)
           = fp_mask_value (fp_row (last ms))
     \<and> (\<forall>m\<in>set ms. fp_priority (fp_row (last ms)) \<le> fp_priority (fp_row m))"
proof -
  let ?M = "\<lambda>p. evaluatePolicyConditions js p context \<and> fp_effect (fp_row p) = MASK"
  have ne: "filter ?M (getFieldPolicies db fetched) \<noteq> []" using assms(5,6) by simp
  have run: "evaluateFieldAccess js db fetched userId resourceId fieldId action environment =
      field_loop js context (getFieldPolicies db fetched)
        \<lparr>fa_effect = DENY, fa_policy = None, fa_maskValue = None,
         fa_reason = ''No matching allow policy''\<rparr>"
    using assms(1,2,4) by (simp add: evaluateFieldAccess_def)
  have sorted_ms: "sorted_wrt (\<lambda>a b. fp_priority (fp_row a) \<ge> fp_priority (fp_row b)) ms"
    unfolding assms(5) by (rule sorted_wrt_filter[OF listing_sorted_by_priority[OF assms(3)]])
  have low: "\<forall>m\<in>set ms. fp_priority (fp_row (last ms)) \<le> fp_priority (fp_row m)"
    using sorted_wrt_last[OF sorted_ms] by simp
  show ?thesis
    unfolding run field_loop_last_mask[OF assms(7) ne]
    using low assms(5) by (simp add: Let_def)
qed

theorem last_matching_mask_witness:
  "getFieldPolicies_query (example_db\<lparr>field_policies := [mask_high, mask_low]\<rparr>)
      (Some ''employee'') [mask_high, mask_low]
   \<and> fa_policy (evaluateFieldAccess example_js (example_db\<lparr>field_policies := [mask_high, mask_low]\<rparr>)
        [mask_high, mask_low] ''u1'' ''r1'' ''f1'' ''read'' Map.empty)
       = Some \<lparr>fp_row = mask_low, fp_conditions = []\<rparr>
   \<and> fa_maskValue (evaluateFieldAccess example_js
        (example_db\<lparr>field_policies := [mask_high, mask_low]\<rparr>)
        [mask_high, mask_low] ''u1'' ''r1'' ''f1'' ''read'' Map.empty) = Some ''LOW''"
proof -
  let ?db = "example_db\<lparr>field_policies := [mask_high, mask_low]\<rparr>"
  let ?res = "\<lparr>resource_id = ''r1'', resource_name = ''staff'', resource_type = ''employee''\<rparr>"
  let ?fld = "\<lparr>field_id = ''f1'', field_resource_id = ''r1'', field_name = ''ssn'',
          field_type = Some ''ssn''\<rparr>"
  let ?ctx = "build_context ?db ''u1'' ?res ?fld ''read'' Map.empty"
  let ?ms = "[\<lparr>fp_row = mask_high, fp_conditions = []\<rparr>, \<lparr>fp_row = mask_low, fp_conditions = []\<rparr>]"
  have h1: "find (\<lambda>r. resource_id r = ''r1'') (resources ?db) = Some ?res"
    by (simp add: example_db_def)
  have h2: "find (\<lambda>f. field_id f = ''f1'') (resource_fields ?db) = Some ?fld"
    by (simp add: example_db_def)
  have q: "getFieldPolicies_query ?db (Some (resource_type ?res)) [mask_high, mask_low]"
    by (simp add: getFieldPolicies_query_def getFieldPolicies_selected_def sql_order_by_def
        example_field_defs)
  have ms: "?ms = filter (\<lambda>p. evaluatePolicyConditions example_js p ?ctx \<and> fp_effect (fp_row p) = MASK)
                (getFieldPolicies ?db [mask_high, mask_low])"
    by (simp add: example_field_defs)
  have ne: "?ms \<noteq> []" by simp
  have no_end: "\<forall>p\<in>set (getFieldPolicies ?db [mask_high, mask_low]).
      evaluatePolicyConditions example_js p ?ctx \<longrightarrow>
           fp_effect (fp_row p) \<noteq> DENY \<and> fp_effect (fp_row p) \<noteq> REDACT"
    by (simp add: example_field_defs)
  from last_matching_mask_is_returned[OF h1 h2 q refl ms ne no_end] q
  show ?thesis by (simp add: mask_low_def)
qed

text \<open>
  C5 as stated fails: two mask policies of priorities 20 and 10 match, the query admits
  them in the order 20, 10 only, and the result cites the policy of priority 10 with its
  mask value \<open>LOW\<close>, not the policy of priority 20 with its mask value \<open>HIGH\<close>.
\<close>

theorem highest_priority_mask_counterexample:
  "getFieldPolicies_query (example_db\<lparr>field_policies := [mask_high, mask_low]\<rparr>)
      (Some ''employee'') [mask_high, mask_low]
   \<and> \<not> getFieldPolicies_query (example_db\<lparr>field_policies := [mask_high, mask_low]\<rparr>)
      (Some ''employee'') [mask_low, mask_high]
   \<and> fp_priority mask_low < fp_priority mask_high
   \<and> evaluatePolicyConditions example_js \<lparr>fp_row = mask_high, fp_conditions = []\<rparr>
        (build_context (example_db\<lparr>field_policies := [mask_high, mask_low]\<rparr>) ''u1''
           \<lparr>resource_id = ''r1'', resource_name = ''staff'', resource_type = ''employee''\<rparr>
           \<lparr>field_id = ''f1'', field_resource_id = ''r1'', field_name = ''ssn'',
            field_type = Some ''ssn''\<rparr> ''read'' Map.empty)
   \<and> fa_policy (evaluateFieldAccess example_js (example_db\<lparr>field_policies := [mask_high, mask_low]\<rparr>)
        [mask_high, mask_low] ''u1'' ''r1'' ''f1'' ''read'' Map.empty)
       = Some \<lparr>fp_row = mask_low, fp_conditions = []\<rparr>
   \<and> fa_maskValue (evaluateFieldAccess example_js
        (example_db\<lparr>field_policies := [mask_high, mask_low]\<rparr>)
        [mask_high, mask_low] ''u1'' ''r1'' ''f1'' ''read'' Map.empty) = Some ''LOW''
   \<and> fp_mask_value mask_high = Some ''HIGH''"
  by (simp add: getFieldPolicies_query_def getFieldPolicies_selected_def sql_order_by_def
      evaluateFieldAccess_def example_field_defs Let_def)

subsection \<open>Masking\<close>

text \<open>
  C8. Masking of a value of field type \<open>ssn\<close> when the policy supplies no mask text (the
  mask pattern is null or empty): the result is \<open>***-**-\<close> followed by the last four
  characters of a value of at least four characters, and \<open>***-**-****\<close> for a shorter
  one. In particular \<open>123-45-6789\<close> becomes \<open>***-**-6789\<close>. A null value has no
  characters to mask: the guard at the head of applyMask returns it as it is.
\<close>

theorem applyMask_ssn:
  "applyMask js (Some v) (Some ''ssn'') None =
     Some (if length v \<ge> 4 then ''***-**-'' @ drop (length v - 4) v else ''***-**-****'')
   \<and> applyMask js (Some v) (Some ''ssn'') (Some []) =
     Some (if length v \<ge> 4 then ''***-**-'' @ drop (length v - 4) v else ''***-**-****'')
   \<and> applyMask js (Some ''123-45-6789'') (Some ''ssn'') None = Some ''***-**-6789''
   \<and> applyMask js None (Some ''ssn'') maskPattern = None"
  by (simp add: applyMask_def mask_by_type_def slice_last4_def)

subsection \<open>Inherited members of the attribute bags\<close>

text \<open>
  A condition on an attribute named after a member of \<open>Object.prototype\<close> reads the
  inherited member, in both engines: no attribute \<open>constructor\<close> is stored, and the
  condition that \<open>constructor\<close> contains \<open>native code\<close> holds.
\<close>

lemma inherited_member_is_read:
  "(case getUserAttributes example_db ''u1'' of
      None \<Rightarrow> False
    | Some userAttrs \<Rightarrow>
        condition_matches example_js userAttrs Map.empty Map.empty ''read''
          \<lparr>policy_id = ''p'', subject_type = Subj_user, attribute_name = ''constructor'',
           operator = Op_contains, attribute_value = ''native code''\<rparr> = Inr True)
   \<and> evaluateCondition example_js
        \<lparr>policy_id = ''p'', subject_type = Subj_environment, attribute_name = ''constructor'',
         operator = Op_contains, attribute_value = ''native code''\<rparr>
        (build_context example_db ''u1'' (hd (resources example_db))
           (hd (resource_fields example_db)) ''read'' Map.empty)"
  by code_simp

subsection \<open>Row filtering\<close>

text \<open>
  The model at work on scenario C: the access to the field is a mask, and filtering the
  row turns \<open>123-45-6789\<close> into \<open>***-**-6789\<close>.
\<close>

lemma scenario_mask_ssn:
  "getFieldPolicies_query db_scenario (Some ''employee'') [mask_ssn]
   \<and> fa_effect (evaluateFieldAccess example_js db_scenario [mask_ssn] ''u1'' ''r1'' ''f1'' ''read''
        Map.empty) = MASK
   \<and> filterSingleRow example_js db_scenario [mask_ssn] ''u1'' ''r1''
        [(''ssn'', Some ''123-45-6789'')] (resource_fieldMap db_scenario ''r1'') ''read'' Map.empty
       = Inr [''ssn'' \<mapsto> Cell (Some ''***-**-6789''),
              ''_accessControl'' \<mapsto> AccessLog [''ssn'' \<mapsto> MASK]]"
  by (simp add: getFieldPolicies_query_def getFieldPolicies_selected_def sql_order_by_def
      evaluateFieldAccess_def filterSingleRow_def resource_fieldMap_def db_scenario_def
      mask_ssn_def example_db_def example_js_def getFieldPolicies_def build_context_def
      evaluatePolicyConditions_def evaluateCondition_def tested_field_name_def
      assign_attributes_def set_property_def Object_prototype_def Object_prototype_keys_def
      applyMask_def mask_by_type_def slice_last4_def toLowerCase_def lower_char_def Let_def)

text \<open>
  A row key that names an inherited member and is no field of the schema ends the
  filtering with the exception of the database library, when the resource exists.
\<close>

lemma inherited_key_raises:
  "resource_fieldMap example_db ''r1'' ''constructor'' = None
   \<and> filterSingleRow example_js example_db [] ''u1'' ''r1''
        [(''note'', Some ''hello''), (''constructor'', Some ''x'')]
        (resource_fieldMap example_db ''r1'') ''read'' Map.empty = Inl Wrong_API_use"
  by (simp add: filterSingleRow_def resource_fieldMap_def example_db_def
      Object_prototype_keys_def)

text \<open>
  One turn of the loop of filterSingleRow that does not raise: the loop goes on from maps
  that differ from the ones before at the key of the entry only, and the key of no field
  and of no inherited member has its value copied.
\<close>

lemma filter_entries_step:
  assumes "filter_entries js db fetched userId resourceId fieldMap action environment
             ((fieldName, v) # rest) (filtered, accessLog) = Inr acc'"
  shows "\<exists>acc1.
           filter_entries js db fetched userId resourceId fieldMap action environment rest acc1
             = Inr acc'
         \<and> (\<forall>k. k \<noteq> fieldName \<longrightarrow> fst acc1 k = filtered k \<and> snd acc1 k = accessLog k)
         \<and> (fieldMap fieldName = None \<and> fieldName \<notin> set Object_prototype_keys
              \<longrightarrow> acc1 = (filtered(fieldName \<mapsto> Cell v), accessLog))"
proof (cases "fieldMap fieldName")
  case None
  show ?thesis
  proof (cases "fieldName \<in> set Object_prototype_keys")
    case True
    with assms None
    have "filter_entries js db fetched userId resourceId fieldMap action environment rest
            (filtered, set_property fieldName DENY accessLog) = Inr acc'"
      by (simp split: option.splits)
    with None True show ?thesis
      apply -
      apply (rule exI[of _ "(filtered, set_property fieldName DENY accessLog)"])
      apply (simp add: set_property_def)
      done
  next
    case False
    with assms None show ?thesis by auto
  qed
next
  case (Some field)
  define access where
    "access = evaluateFieldAccess js db fetched userId resourceId (field_id field) action
                environment"
  define acc1 where
    "acc1 =
       (case fa_effect access of
          ALLOW \<Rightarrow> (filtered(fieldName \<mapsto> Cell v), accessLog(fieldName \<mapsto> fa_effect access))
        | MASK \<Rightarrow>
            (filtered(fieldName \<mapsto>
               Cell (applyMask js v (field_type field) (fa_maskValue access))),
             accessLog(fieldName \<mapsto> fa_effect access))
        | REDACT \<Rightarrow>
            (filtered(fieldName \<mapsto>
               Cell (Some (or_default (fa_maskValue access) ''***REDACTED***''))),
             accessLog(fieldName \<mapsto> fa_effect access))
        | DENY \<Rightarrow> (filtered, accessLog(fieldName \<mapsto> fa_effect access)))"
  from assms Some
  have run: "filter_entries js db fetched userId resourceId fieldMap action environment rest
               acc1 = Inr acc'"
    unfolding acc1_def access_def by (simp add: Let_def)
  have "\<forall>k. k \<noteq> fieldName \<longrightarrow> fst acc1 k = filtered k \<and> snd acc1 k = accessLog k"
    unfolding acc1_def by (simp split: field_effect.splits)
  with run Some show ?thesis
    apply -
    apply (rule exI[of _ acc1])
    apply simp
    done
qed

text \<open>
  When the loop of filterSingleRow returns, it has changed neither map at a key the row
  does not hold.
\<close>

lemma filter_entries_other_key:
  "\<lbrakk>filter_entries js db fetched userId resourceId fieldMap action environment row acc
      = Inr acc';
    k \<notin> fst ` set row\<rbrakk>
   \<Longrightarrow> fst acc' k = fst acc k \<and> snd acc' k = snd acc k"
proof (induction row arbitrary: acc)
  case Nil
  then show ?case by simp
next
  case (Cons entry rest)
  obtain fieldName v where entry: "entry = (fieldName, v)" by (cases entry)
  obtain filtered accessLog where acc: "acc = (filtered, accessLog)" by (cases acc)
  from Cons.prems(2) entry have ne: "k \<noteq> fieldName" and rest: "k \<notin> fst ` set rest" by auto
  from filter_entries_step[OF Cons.prems(1)[unfolded entry acc]]
  obtain acc1 where
    run: "filter_entries js db fetched userId resourceId fieldMap action environment rest acc1
            = Inr acc'"
    and same: "\<forall>k. k \<noteq> fieldName \<longrightarrow> fst acc1 k = filtered k \<and> snd acc1 k = accessLog k"
    by blast
  from Cons.IH[OF run rest] same ne acc show ?case by simp
qed

text \<open>
  When the loop of filterSingleRow returns, it has copied the value of a key that is no
  field of the schema and names no inherited member, and has left the access log alone
  at that key.
\<close>

lemma filter_entries_unknown_key:
  "\<lbrakk>filter_entries js db fetched userId resourceId fieldMap action environment row acc
      = Inr acc';
    distinct (map fst row); (k, v) \<in> set row; fieldMap k = None;
    k \<notin> set Object_prototype_keys\<rbrakk>
   \<Longrightarrow> fst acc' k = Some (Cell v) \<and> snd acc' k = snd acc k"
proof (induction row arbitrary: acc)
  case Nil
  then show ?case by simp
next
  case (Cons entry rest)
  obtain fieldName w where entry: "entry = (fieldName, w)" by (cases entry)
  obtain filtered accessLog where acc: "acc = (filtered, accessLog)" by (cases acc)
  from Cons.prems(2) entry have fresh: "fieldName \<notin> fst ` set rest"
    and dist: "distinct (map fst rest)"
    by auto
  from filter_entries_step[OF Cons.prems(1)[unfolded entry acc]]
  obtain acc1 where
    run: "filter_entries js db fetched userId resourceId fieldMap action environment rest acc1
            = Inr acc'"
    and same: "\<forall>k. k \<noteq> fieldName \<longrightarrow> fst acc1 k = filtered k \<and> snd acc1 k = accessLog k"
    and copied: "fieldMap fieldName = None \<and> fieldName \<notin> set Object_prototype_keys
                   \<longrightarrow> acc1 = (filtered(fieldName \<mapsto> Cell w), accessLog)"
    by blast
  show ?case
  proof (cases "k = fieldName")
    case True
    with fresh Cons.prems(3) entry have w: "w = v" by force
    from True fresh have "k \<notin> fst ` set rest" by simp
    from filter_entries_other_key[OF run this] copied True Cons.prems(4,5) w acc
    show ?thesis by simp
  next
    case False
    with Cons.prems(3) entry have "(k, v) \<in> set rest" by simp
    from Cons.IH[OF run dist this Cons.prems(4,5)] same False acc show ?thesis by simp
  qed
qed

text \<open>The loop of filterSingleRow returns on a row no key of which names an inherited member.\<close>

lemma filter_entries_returns:
  "\<forall>key\<in>fst ` set row. key \<notin> set Object_prototype_keys
   \<Longrightarrow> \<exists>acc'. filter_entries js db fetched userId resourceId fieldMap action environment row acc
             = Inr acc'"
proof (induction row arbitrary: acc)
  case Nil
  then show ?case by simp
next
  case (Cons entry rest)
  obtain fieldName w where entry: "entry = (fieldName, w)" by (cases entry)
  obtain filtered accessLog where acc: "acc = (filtered, accessLog)" by (cases acc)
  from Cons.prems entry have head: "fieldName \<notin> set Object_prototype_keys"
    and rest: "\<forall>key\<in>fst ` set rest. key \<notin> set Object_prototype_keys"
    by auto
  from Cons.IH[OF rest] head entry acc show ?case
    by (simp add: Let_def split: option.splits)
qed

text \<open>
  C10. Unknown-field passthrough in row filtering, as the code has it. Take a row with
  distinct keys, none of which names a member of \<open>Object.prototype\<close>, and a table of fields
  that has no field named \<open>__proto__\<close>. Then filterSingleRow returns an object, and for
  every key \<open>k\<close> of the row that is no field of the schema and is not \<open>_accessControl\<close>, the
  object holds the value the row has at \<open>k\<close>, unchanged, and the access-control map the
  object holds under \<open>_accessControl\<close> has no entry for \<open>k\<close>.
\<close>

theorem unknown_key_is_passed_through:
  assumes "distinct (map fst row)"
    and "\<forall>key\<in>fst ` set row. key \<notin> set Object_prototype_keys"
    and "fieldMap ''__proto__'' = None"
    and "(k, v) \<in> set row"
    and "fieldMap k = None"
    and "k \<noteq> ''_accessControl''"
  shows "\<exists>out accessLog.
           filterSingleRow js db fetched userId resourceId row fieldMap action environment
             = Inr out
         \<and> out k = Some (Cell v)
         \<and> out ''_accessControl'' = Some (AccessLog accessLog)
         \<and> accessLog k = None"
proof -
  from filter_entries_returns[OF assms(2)]
  obtain filtered accessLog where
    run: "filter_entries js db fetched userId resourceId fieldMap action environment row
            (Map.empty, Map.empty) = Inr (filtered, accessLog)"
    by fastforce
  from assms(2,4) have "k \<notin> set Object_prototype_keys" by force
  from filter_entries_unknown_key[OF run assms(1,4,5) this]
  have "filtered k = Some (Cell v)" and "accessLog k = None" by simp_all
  with run assms(6) show ?thesis by (simp add: filterSingleRow_def)
qed

theorem unknown_key_witness:
  "resource_fieldMap example_db ''r1'' ''note'' = None
   \<and> filterSingleRow example_js example_db [] ''u1'' ''r1''
        [(''note'', Some ''hello''), (''ssn'', Some ''123-45-6789'')]
        (resource_fieldMap example_db ''r1'') ''read'' Map.empty
       = Inr [''note'' \<mapsto> Cell (Some ''hello''),
              ''_accessControl'' \<mapsto> AccessLog [''ssn'' \<mapsto> DENY]]"
  using unknown_key_is_passed_through[of
      "[(''note'', Some ''hello''), (''ssn'', Some ''123-45-6789'')]"
      "resource_fieldMap example_db ''r1''" "''note''" "Some ''hello''"
      example_js example_db "[]" "''u1''" "''r1''" "''read''" Map.empty]
  by (simp add: filterSingleRow_def resource_fieldMap_def example_db_def
      Object_prototype_keys_def evaluateFieldAccess_def getFieldPolicies_def Let_def)

text \<open>
  The key \<open>_accessControl\<close> is no field of the schema, and its value is not copied: the
  object returned holds the access-control map there.
\<close>

theorem accessControl_key_counterexample:
  "resource_fieldMap example_db ''r1'' ''_accessControl'' = None
   \<and> filterSingleRow example_js example_db [] ''u1'' ''r1'' [(''_accessControl'', Some ''x'')]
        (resource_fieldMap example_db ''r1'') ''read'' Map.empty
       = Inr [''_accessControl'' \<mapsto> AccessLog Map.empty]
   \<and> [''_accessControl'' \<mapsto> AccessLog Map.empty] ''_accessControl''
       \<noteq> Some (Cell (Some ''x''))"
  by (simp add: filterSingleRow_def resource_fieldMap_def example_db_def
      Object_prototype_keys_def)

end
